theory Spec2Isabelle
  imports Complex_Main
begin

section \<open>Numeric containers\<close>

text \<open>
  The planner computes on \<^verbatim>\<open>double\<close> and on fixed-size Eigen vectors. A
  \<^verbatim>\<open>double\<close> is idealised as a \<^typ>\<open>real\<close>; rounding, infinities and NaN are
  outside the model. \<^verbatim>\<open>Eigen::Vector2d\<close>, \<^verbatim>\<open>Vector3d\<close>, \<^verbatim>\<open>Vector4d\<close> are
  tuples, \<^verbatim>\<open>Eigen::Matrix2d\<close> and \<^verbatim>\<open>Matrix4d\<close> are tuples of rows, a
  \<^verbatim>\<open>std::chrono::nanoseconds\<close> is its integer count.
\<close>

type_synonym vec2 = "real \<times> real"
type_synonym vec3 = "real \<times> real \<times> real"
type_synonym vec4 = "real \<times> real \<times> real \<times> real"
type_synonym mat2 = "vec2 \<times> vec2"
type_synonym mat4 = "vec4 \<times> vec4 \<times> vec4 \<times> vec4"
type_synonym nanoseconds = int

definition vec2_get :: "vec2 \<Rightarrow> nat \<Rightarrow> real" where
  "vec2_get v i = (if i = 0 then fst v else snd v)"

definition vec2_set :: "nat \<Rightarrow> real \<Rightarrow> vec2 \<Rightarrow> vec2" where
  "vec2_set i a v = (if i = 0 then (a, snd v) else (fst v, a))"

definition vec2_add :: "vec2 \<Rightarrow> vec2 \<Rightarrow> vec2" where
  "vec2_add v w = (fst v + fst w, snd v + snd w)"

definition mat2_vec :: "mat2 \<Rightarrow> vec2 \<Rightarrow> vec2" where
  "mat2_vec M v = (case M of ((a, b), (c, d)) \<Rightarrow> (a * fst v + b * snd v, c * fst v + d * snd v))"

definition vec3_set_head2 :: "vec2 \<Rightarrow> vec3 \<Rightarrow> vec3" where
  "vec3_set_head2 h v = (case v of (x, y, z) \<Rightarrow> (fst h, snd h, z))"

definition vec3_set_z :: "real \<Rightarrow> vec3 \<Rightarrow> vec3" where
  "vec3_set_z a v = (case v of (x, y, z) \<Rightarrow> (x, y, a))"

definition vec4_head2 :: "vec4 \<Rightarrow> vec2" where
  "vec4_head2 v = (case v of (a, b, c, d) \<Rightarrow> (a, b))"

definition vec4_tail2 :: "vec4 \<Rightarrow> vec2" where
  "vec4_tail2 v = (case v of (a, b, c, d) \<Rightarrow> (c, d))"

definition vec4_of :: "vec2 \<Rightarrow> vec2 \<Rightarrow> vec4" where
  "vec4_of h t = (fst h, snd h, fst t, snd t)"

definition vec4_zero :: vec4 where
  "vec4_zero = (0, 0, 0, 0)"

definition vec4_add :: "vec4 \<Rightarrow> vec4 \<Rightarrow> vec4" where
  "vec4_add v w =
     (case v of (a, b, c, d) \<Rightarrow> case w of (a', b', c', d') \<Rightarrow> (a + a', b + b', c + c', d + d'))"

definition vec4_scale :: "real \<Rightarrow> vec4 \<Rightarrow> vec4" where
  "vec4_scale k v = (case v of (a, b, c, d) \<Rightarrow> (k * a, k * b, k * c, k * d))"

definition vec4_dot :: "vec4 \<Rightarrow> vec4 \<Rightarrow> real" where
  "vec4_dot v w =
     (case v of (a, b, c, d) \<Rightarrow> case w of (a', b', c', d') \<Rightarrow> a * a' + b * b' + c * c' + d * d')"

definition mat4_vec :: "mat4 \<Rightarrow> vec4 \<Rightarrow> vec4" where
  "mat4_vec M v =
     (case M of (r0, r1, r2, r3) \<Rightarrow> (vec4_dot r0 v, vec4_dot r1 v, vec4_dot r2 v, vec4_dot r3 v))"

definition mat4_Identity :: mat4 where
  "mat4_Identity = ((1, 0, 0, 0), (0, 1, 0, 0), (0, 0, 1, 0), (0, 0, 0, 1))"

definition mat4_scale :: "real \<Rightarrow> mat4 \<Rightarrow> mat4" where
  "mat4_scale k M =
     (case M of (r0, r1, r2, r3) \<Rightarrow>
        (vec4_scale k r0, vec4_scale k r1, vec4_scale k r2, vec4_scale k r3))"

definition mat4_neg :: "mat4 \<Rightarrow> mat4" where
  "mat4_neg M = mat4_scale (- 1) M"

definition mat4_entries :: "mat4 \<Rightarrow> real list" where
  "mat4_entries M =
     (case M of
        ((a0, a1, a2, a3), (b0, b1, b2, b3), (c0, c1, c2, c3), (d0, d1, d2, d3)) \<Rightarrow>
          [a0, a1, a2, a3, b0, b1, b2, b3, c0, c1, c2, c3, d0, d1, d2, d3])"

text \<open>Entrywise closeness of two matrices, for statements up to a tolerance.\<close>

definition mat4_within :: "real \<Rightarrow> mat4 \<Rightarrow> mat4 \<Rightarrow> bool" where
  "mat4_within tol M N = list_all2 (\<lambda>a b. \<bar>a - b\<bar> < tol) (mat4_entries M) (mat4_entries N)"

definition seconds_of :: "nanoseconds \<Rightarrow> real" where
  \<comment> \<open>\<^verbatim>\<open>d.count() * 1e-9\<close>\<close>
  "seconds_of d = of_int d * (1 / 1000000000)"

definition nanoseconds_of :: "real \<Rightarrow> nanoseconds" where
  \<comment> \<open>\<^verbatim>\<open>std::chrono::nanoseconds(static_cast<int64_t>(x * 1e9))\<close>: the cast truncates
      towards zero. The product is exact here and rounded in \<^verbatim>\<open>double\<close>, so the two
      can differ by one count, and the 64-bit range of the cast is not modelled; nothing
      below is stated of the value stored for a period or horizon.\<close>
  "nanoseconds_of x =
     (let y = x * 1000000000 in if 0 \<le> y then \<lfloor>y\<rfloor> else \<lceil>y\<rceil>)"

definition resize :: "nat \<Rightarrow> 'a \<Rightarrow> 'a list \<Rightarrow> 'a list" where
  \<comment> \<open>\<^verbatim>\<open>std::vector::resize(n)\<close>: keeps the first \<open>n\<close> elements, appends
      default-constructed ones (\<open>fill\<close>) up to length \<open>n\<close>.\<close>
  "resize n fill xs = take n xs @ replicate (n - length xs) fill"

section \<open>Data model of the planner\<close>

datatype FSM = NotInitialized | Initialized | Running

datatype UnicycleController = PERSON_FOLLOWING | DIRECT

datatype FirstDCMTrajectoryMode = FifthOrderPoly

record Step =
  step_position :: vec2
  angle :: real
  impactTime :: real

record DCMInitialState =
  initialPosition :: vec2
  initialVelocity :: vec2

record COMInitialState =
  initialPlanarPosition :: vec2
  initialPlanarVelocity :: vec2

text \<open>
  A \<^verbatim>\<open>manif::SE3d\<close>: the planner reads its translation (\<^verbatim>\<open>x()\<close>, \<^verbatim>\<open>y()\<close>) and
  the roll-pitch-yaw angles of its rotation (\<^verbatim>\<open>asSO3()\<close>, then \<^verbatim>\<open>asRPY()\<close>), so
  the rotation is carried by these three angles.
\<close>

record SE3d =
  translation :: vec3
  asRPY :: vec3

definition se3_x :: "SE3d \<Rightarrow> real" where
  "se3_x T = fst (translation T)"

definition se3_y :: "SE3d \<Rightarrow> real" where
  "se3_y T = fst (snd (translation T))"

definition se3_yaw :: "SE3d \<Rightarrow> real" where
  \<comment> \<open>\<^verbatim>\<open>Conversions::toiDynTreeRot(T.asSO3()).asRPY()(2)\<close>\<close>
  "se3_yaw T = snd (snd (asRPY T))"

record UnicycleTrajectoryPlannerInput =
  plannerInput :: "real list"
  dcmInitialState :: DCMInitialState
  comInitialState :: COMInitialState
  isLeftLastSwinging :: bool
  initTime :: nanoseconds
  measuredTransform :: SE3d

record ContactStatus =
  leftFootInContact :: "bool list"
  rightFootInContact :: "bool list"
  UsedLeftAsFixed :: "bool list"

record Steps =
  leftSteps :: "Step list"
  rightSteps :: "Step list"

record DCMTrajectory =
  dcm_position :: "vec2 list"
  dcm_velocity :: "vec2 list"

record COMTrajectory =
  com_position :: "vec3 list"
  com_velocity :: "vec3 list"
  com_acceleration :: "vec3 list"

record UnicycleTrajectoryPlannerOutput =
  contactStatus :: ContactStatus
  steps :: Steps
  dcmTrajectory :: DCMTrajectory
  comTrajectory :: COMTrajectory
  mergePoints :: "nat list"

record UnicycleTrajectoryPlannerParameters =
  dt :: nanoseconds
  plannerHorizon :: nanoseconds
  nominalWidth :: real
  referencePointDistance :: vec2
  leftYawDeltaInRad :: real
  rightYawDeltaInRad :: real
  leftContactFrameName :: string
  rightContactFrameName :: string
  leftContactFrameIndex :: int
  rightContactFrameIndex :: int

record COMHeightTrajectory =
  height_position :: "real list"
  height_velocity :: "real list"
  height_acceleration :: "real list"

subsection \<open>The CoM system\<close>

text \<open>
  Modelled from the spec: \<^verbatim>\<open>LinearTimeInvariantSystem\<close> and \<^verbatim>\<open>RK4\<close> belong to
  the repository but their sources are not part of the planner's file. The spec describes
  the first as "pure data + matrices, no behavior beyond matrix storage" with state
  derivative \<open>A x + B u\<close>, and the second as a fixed-step explicit 4-stage scheme that
  is stateless apart from the system it refers to and its step size. A freshly made system
  has no matrices yet; its setters store their argument and report success.
\<close>

record LinearTimeInvariantSystem =
  matrices :: "(mat4 \<times> mat4) option"
  lti_state :: vec4
  controlInput :: vec4

record RK4 =
  integrationStep :: nanoseconds
  solution :: vec4

record COMSystem =
  dynamics :: LinearTimeInvariantSystem
  integrator :: RK4

definition make_LinearTimeInvariantSystem :: LinearTimeInvariantSystem where
  "make_LinearTimeInvariantSystem =
     \<lparr>matrices = None, lti_state = vec4_zero, controlInput = vec4_zero\<rparr>"

definition make_RK4 :: RK4 where
  "make_RK4 = \<lparr>integrationStep = 0, solution = vec4_zero\<rparr>"

definition setSystemMatrices ::
  "mat4 \<Rightarrow> mat4 \<Rightarrow> LinearTimeInvariantSystem \<Rightarrow> bool \<times> LinearTimeInvariantSystem" where
  "setSystemMatrices A B sys = (True, sys\<lparr>matrices := Some (A, B)\<rparr>)"

definition setState :: "vec4 \<Rightarrow> LinearTimeInvariantSystem \<Rightarrow> bool \<times> LinearTimeInvariantSystem" where
  "setState x sys = (True, sys\<lparr>lti_state := x\<rparr>)"

definition setControlInput ::
  "vec4 \<Rightarrow> LinearTimeInvariantSystem \<Rightarrow> bool \<times> LinearTimeInvariantSystem" where
  "setControlInput u sys = (True, sys\<lparr>controlInput := u\<rparr>)"

definition lti_rhs :: "mat4 \<times> mat4 \<Rightarrow> vec4 \<Rightarrow> vec4 \<Rightarrow> vec4" where
  "lti_rhs AB u x = vec4_add (mat4_vec (fst AB) x) (mat4_vec (snd AB) u)"

definition lti_dynamics :: "LinearTimeInvariantSystem \<Rightarrow> vec4 option" where
  \<comment> \<open>\<^verbatim>\<open>dynamics(time, dx)\<close>: \<open>dx = A x + B u\<close>; without matrices the call fails and
      leaves \<open>dx\<close> as it was.\<close>
  "lti_dynamics sys =
     (case matrices sys of
        None \<Rightarrow> None
      | Some AB \<Rightarrow> Some (lti_rhs AB (controlInput sys) (lti_state sys)))"

definition rk4_step :: "(vec4 \<Rightarrow> vec4) \<Rightarrow> real \<Rightarrow> vec4 \<Rightarrow> vec4" where
  "rk4_step f h x =
     (let k1 = f x;
          k2 = f (vec4_add x (vec4_scale (h / 2) k1));
          k3 = f (vec4_add x (vec4_scale (h / 2) k2));
          k4 = f (vec4_add x (vec4_scale h k3))
      in vec4_add x
           (vec4_scale (h / 6)
              (vec4_add k1 (vec4_add (vec4_scale 2 k2) (vec4_add (vec4_scale 2 k3) k4)))))"

definition oneStepIntegration :: "nanoseconds \<Rightarrow> COMSystem \<Rightarrow> bool \<times> COMSystem" where
  \<comment> \<open>one step of length \<open>h\<close> from the state held by the system the integrator refers
      to; the result is kept as the integrator's solution.\<close>
  "oneStepIntegration h cs =
     (case matrices (dynamics cs) of
        None \<Rightarrow> (False, cs)
      | Some AB \<Rightarrow>
          (True,
           cs\<lparr>integrator := (integrator cs)
                \<lparr>solution :=
                   rk4_step (lti_rhs AB (controlInput (dynamics cs))) (seconds_of h)
                     (lti_state (dynamics cs))\<rparr>\<rparr>))"

subsection \<open>The footstep and DCM generator\<close>

text \<open>
  \<^verbatim>\<open>UnicycleGenerator\<close>, its \<^verbatim>\<open>unicyclePlanner()\<close>, its DCM and CoM-height
  trajectory generators and its foot prints belong to an external library. The planner
  holds one generator; every method the planner invokes on it or on one of its parts is
  either a command (\<^verbatim>\<open>gen_call\<close> below, named after the method) or an accessor.
  \<^verbatim>\<open>addDCMTrajectoryGenerator\<close> and \<^verbatim>\<open>addCoMHeightTrajectoryGenerator\<close>, which
  give the handle of a part and may create it, are commands; \<^verbatim>\<open>unicyclePlanner\<close>,
  \<^verbatim>\<open>getLeftFootPrint\<close> and \<^verbatim>\<open>getRightFootPrint\<close> only give a handle, and the
  step phases are only pulled for debug messages, so they are not modelled.
  The library is a parameter of the model: \<open>command\<close> gives, for the generator's
  internal state, the flag the method returns and the state it leaves (for a
  \<^verbatim>\<open>void\<close> method the flag is ignored), and each accessor reads that state. Beside
  the internal state the model keeps the sequence of commands the planner has issued, so
  that what the planner forwards to the library can be stated.
\<close>

datatype gen_call =
    SetDesiredPersonDistance real real
  | SetPersonFollowingControllerGain real
  | SetSlowWhenTurnGain real
  | SetSlowWhenBackwardFactor real
  | SetSlowWhenSidewaysFactor real
  | SetMaxStepLength real real
  | SetMaximumIntegratorStepSize real
  | SetWidthSetting real real
  | SetMaxAngleVariation real
  | SetMinimumAngleForNewSteps real
  | SetCostWeights real real
  | SetStepTimings real real real
  | SetPlannerPeriod real
  | SetMinimumStepLength real
  | SetSaturationsConservativeFactors real real
  | SetLeftFootYawOffsetInRadians real
  | SetRightFootYawOffsetInRadians real
  | AddTerminalStep bool
  | StartWithLeft bool
  | ResetStartingFootIfStill bool
  | SetUnicycleController UnicycleController
  | SetSwitchOverSwingRatio real
  | SetTerminalHalfSwitchTime real
  | SetPauseConditions real real
  | SetMergePointRatio real real
  | SetPauseActive bool
  | SetCoMHeightSettings real real
  | SetFootOriginOffset vec2 vec2
  | SetOmega real
  | SetFirstDCMTrajectoryMode FirstDCMTrajectoryMode
  | SetLastStepDCMOffsetPercentage real
  | ClearPersonFollowingDesiredTrajectory
  | SetDesiredDirectControl real real real
  | ClearLeftSteps
  | ClearRightSteps
  | AddPersonFollowingDesiredTrajectoryPoint real vec2
  | Generate real real real
  | SetDCMInitialState DCMInitialState
  | ReGenerate real real real bool vec2 real
  | AddDCMTrajectoryGenerator
  | AddCoMHeightTrajectoryGenerator

record 'g UnicycleGeneratorLibrary =
  command :: "gen_call \<Rightarrow> 'g \<Rightarrow> bool \<times> 'g"
  getFeetStandingPeriods :: "'g \<Rightarrow> bool list \<times> bool list"
  getWhenUseLeftAsFixed :: "'g \<Rightarrow> bool list"
  getLeftSteps :: "'g \<Rightarrow> Step list"
  getRightSteps :: "'g \<Rightarrow> Step list"
  getDCMPosition :: "'g \<Rightarrow> vec2 list"
  getDCMVelocity :: "'g \<Rightarrow> vec2 list"
  getCoMHeightTrajectory :: "'g \<Rightarrow> real list"
  getCoMHeightVelocity :: "'g \<Rightarrow> real list"
  getCoMHeightAccelerationProfile :: "'g \<Rightarrow> real list"
  getMergePoints :: "'g \<Rightarrow> nat list"

record 'g UnicycleGenerator =
  internal :: 'g
  issued :: "gen_call list"

definition invoke ::
  "'g UnicycleGeneratorLibrary \<Rightarrow> gen_call \<Rightarrow> 'g UnicycleGenerator \<Rightarrow> bool \<times> 'g UnicycleGenerator" where
  "invoke L c g =
     (let r = command L c (internal g)
      in (fst r, \<lparr>internal = snd r, issued = issued g @ [c]\<rparr>))"

subsection \<open>The planner's private state\<close>

record 'g Impl =
  state :: FSM
  "output" :: UnicycleTrajectoryPlannerOutput
  input :: UnicycleTrajectoryPlannerInput
  parameters :: UnicycleTrajectoryPlannerParameters
  generator :: "'g UnicycleGenerator"
  comSystem :: COMSystem
  impl_initTime :: nanoseconds
  comHeightTrajectory :: COMHeightTrajectory

text \<open>
  What a method reports: the error messages it logs (one constructor per
  \<^verbatim>\<open>log()->error\<close> site; info and debug messages are not modelled).
\<close>

datatype error =
    Frames_planner_not_initialized
  | Unable_to_load_the_robot_model
  | Unable_to_find_the_frame string
  | Invalid_controller_type
  | Invalid_parameter_handler
  | Unable_to_get_the_parameter string
  | Input_planner_never_initialized
  | Advance_planner_never_initialized
  | Error_while_setting_the_new_reference
  | Failed_to_set_the_initial_state
  | Failed_in_computing_new_trajectory
  | Error_while_setting_the_initial_point
  | Error_while_setting_the_final_point
  | Error_while_computing_the_first_trajectories
  | The_output_is_not_valid
  | Error_while_getting_the_left_contact_list
  | Error_while_getting_the_right_contact_list

text \<open>
  What C++ does where the program has no defined result: \<^verbatim>\<open>std::vector::at\<close> out
  of range throws, and an unchecked index out of range (\<^verbatim>\<open>operator[]\<close>, Eigen's
  \<^verbatim>\<open>operator()\<close>) or a fixed-size segment of a too short vector is undefined
  behaviour.
\<close>

datatype fault = Out_of_range_exception | Undefined_behaviour

subsection \<open>Uninitialised storage\<close>

text \<open>
  Storage the program reads or keeps without having written it: the two components of
  the local \<^verbatim>\<open>Eigen::Vector2d desiredPointInRelativeFrame\<close> when it is declared, and
  the \<^verbatim>\<open>Eigen::Vector3d\<close> elements \<^verbatim>\<open>resize\<close> appends. Their content is not
  determined by the program, so it is an argument of the model.
\<close>

record Indeterminate =
  new_Vector2d :: vec2
  new_Vector3d :: vec3

subsection \<open>Construction\<close>

text \<open>
  \<^verbatim>\<open>generateDummyUnicycleTrajectoryPlannerInput\<close> sets every field of the input but
  the initial CoM state, which keeps what its storage held.
\<close>

definition generateDummyUnicycleTrajectoryPlannerInput ::
  "Indeterminate \<Rightarrow> UnicycleTrajectoryPlannerInput" where
  "generateDummyUnicycleTrajectoryPlannerInput ind =
     \<lparr>plannerInput = [0, 0, 0],
      dcmInitialState = \<lparr>initialPosition = (0, 0), initialVelocity = (0, 0)\<rparr>,
      comInitialState =
        \<lparr>initialPlanarPosition = new_Vector2d ind, initialPlanarVelocity = new_Vector2d ind\<rparr>,
      isLeftLastSwinging = False,
      initTime = 0,
      measuredTransform = \<lparr>translation = (0, - 0.1, 0), asRPY = (0, 0, 0)\<rparr>\<rparr>"

text \<open>
  The constructor makes the private state with \<^verbatim>\<open>std::make_unique<Impl>()\<close>: the
  state is \<open>NotInitialized\<close>, the init time zero, the containers empty and the numbers
  zero. The generator starts in the internal state the library gives a new generator.
\<close>

definition make_Impl :: "'g \<Rightarrow> 'g Impl" where
  "make_Impl g0 =
     \<lparr>state = NotInitialized,
      output =
        \<lparr>contactStatus = \<lparr>leftFootInContact = [], rightFootInContact = [], UsedLeftAsFixed = []\<rparr>,
         steps = \<lparr>leftSteps = [], rightSteps = []\<rparr>,
         dcmTrajectory = \<lparr>dcm_position = [], dcm_velocity = []\<rparr>,
         comTrajectory = \<lparr>com_position = [], com_velocity = [], com_acceleration = []\<rparr>,
         mergePoints = []\<rparr>,
      input =
        \<lparr>plannerInput = [],
         dcmInitialState = \<lparr>initialPosition = (0, 0), initialVelocity = (0, 0)\<rparr>,
         comInitialState = \<lparr>initialPlanarPosition = (0, 0), initialPlanarVelocity = (0, 0)\<rparr>,
         isLeftLastSwinging = False,
         initTime = 0,
         measuredTransform = \<lparr>translation = (0, 0, 0), asRPY = (0, 0, 0)\<rparr>\<rparr>,
      parameters =
        \<lparr>dt = 0, plannerHorizon = 0, nominalWidth = 0, referencePointDistance = (0, 0),
         leftYawDeltaInRad = 0, rightYawDeltaInRad = 0,
         leftContactFrameName = [], rightContactFrameName = [],
         leftContactFrameIndex = 0, rightContactFrameIndex = 0\<rparr>,
      generator = \<lparr>internal = g0, issued = []\<rparr>,
      comSystem = \<lparr>dynamics = make_LinearTimeInvariantSystem, integrator = make_RK4\<rparr>,
      impl_initTime = 0,
      comHeightTrajectory = \<lparr>height_position = [], height_velocity = [], height_acceleration = []\<rparr>\<rparr>"

section \<open>setRobotContactFrames, setInput, isOutputValid, getOutput\<close>

text \<open>
  The kinematic model is external: whether \<^verbatim>\<open>KinDynComputations::loadRobotModel\<close>
  accepts it, and the index \<^verbatim>\<open>getFrameIndex\<close> gives for a frame name
  (\<^verbatim>\<open>iDynTree::FRAME_INVALID_INDEX\<close>, which is \<open>-1\<close>, for an unknown name).
\<close>

record Model =
  loadRobotModel :: bool
  getFrameIndex :: "string \<Rightarrow> int"

definition FRAME_INVALID_INDEX :: int where
  "FRAME_INVALID_INDEX = - 1"

definition setRobotContactFrames :: "Model \<Rightarrow> 'g Impl \<Rightarrow> bool \<times> error list \<times> 'g Impl" where
  "setRobotContactFrames model s =
     (if state s = NotInitialized then (False, [Frames_planner_not_initialized], s)
      else if \<not> loadRobotModel model
      then (False, [Unable_to_load_the_robot_model], s\<lparr>state := NotInitialized\<rparr>)
      else
        let s1 = s\<lparr>parameters := (parameters s)
                   \<lparr>leftContactFrameIndex :=
                      getFrameIndex model (leftContactFrameName (parameters s))\<rparr>\<rparr>
        in if leftContactFrameIndex (parameters s1) = FRAME_INVALID_INDEX
           then (False, [Unable_to_find_the_frame (leftContactFrameName (parameters s1))],
                 s1\<lparr>state := NotInitialized\<rparr>)
           else
             let s2 = s1\<lparr>parameters := (parameters s1)
                        \<lparr>rightContactFrameIndex :=
                           getFrameIndex model (rightContactFrameName (parameters s1))\<rparr>\<rparr>
             in if rightContactFrameIndex (parameters s2) = FRAME_INVALID_INDEX
                then (False, [Unable_to_find_the_frame (rightContactFrameName (parameters s2))],
                      s2\<lparr>state := NotInitialized\<rparr>)
                else (True, [], s2))"

definition getOutput :: "'g Impl \<Rightarrow> UnicycleTrajectoryPlannerOutput" where
  "getOutput s = output s"

definition isOutputValid :: "'g Impl \<Rightarrow> bool" where
  "isOutputValid s = (state s = Running)"

definition setInput ::
  "UnicycleTrajectoryPlannerInput \<Rightarrow> 'g Impl \<Rightarrow> bool \<times> error list \<times> 'g Impl" where
  "setInput inp s =
     (if state s = NotInitialized then (False, [Input_planner_never_initialized], s)
      else (True, [], s\<lparr>input := inp\<rparr>))"

section \<open>advance\<close>

subsection \<open>The re-planning branch\<close>

definition desiredPointInRelativeFrame :: "Indeterminate \<Rightarrow> UnicycleTrajectoryPlannerInput \<Rightarrow> vec2" where
  \<comment> \<open>both assignments write component 0, as the source has them\<close>
  "desiredPointInRelativeFrame ind inp =
     vec2_set 0 (plannerInput inp ! 1) (vec2_set 0 (plannerInput inp ! 0) (new_Vector2d ind))"

definition correctLeft :: "UnicycleTrajectoryPlannerInput \<Rightarrow> bool" where
  "correctLeft inp = (\<not> isLeftLastSwinging inp)"

definition measuredPosition :: "UnicycleTrajectoryPlannerInput \<Rightarrow> vec2" where
  \<comment> \<open>\<^verbatim>\<open>measuredPositionLeft\<close> and \<^verbatim>\<open>measuredPositionRight\<close> are both read from
      the one measured transform\<close>
  "measuredPosition inp =
     (let measuredPositionLeft = (se3_x (measuredTransform inp), se3_y (measuredTransform inp));
          measuredPositionRight = (se3_x (measuredTransform inp), se3_y (measuredTransform inp))
      in if correctLeft inp then measuredPositionLeft else measuredPositionRight)"

definition measuredAngle :: "UnicycleTrajectoryPlannerInput \<Rightarrow> real" where
  "measuredAngle inp =
     (let measuredAngleLeft = se3_yaw (measuredTransform inp);
          measuredAngleRight = se3_yaw (measuredTransform inp)
      in if correctLeft inp then measuredAngleLeft else measuredAngleRight)"

definition unicycleAngle ::
  "UnicycleTrajectoryPlannerParameters \<Rightarrow> UnicycleTrajectoryPlannerInput \<Rightarrow> real" where
  "unicycleAngle p inp =
     (if correctLeft inp then se3_yaw (measuredTransform inp) - leftYawDeltaInRad p
      else se3_yaw (measuredTransform inp) - rightYawDeltaInRad p)"

definition unicycleRotation ::
  "UnicycleTrajectoryPlannerParameters \<Rightarrow> UnicycleTrajectoryPlannerInput \<Rightarrow> mat2" where
  "unicycleRotation p inp =
     (let s_theta = sin (unicycleAngle p inp); c_theta = cos (unicycleAngle p inp)
      in ((c_theta, - s_theta), (s_theta, c_theta)))"

definition unicyclePosition ::
  "UnicycleTrajectoryPlannerParameters \<Rightarrow> UnicycleTrajectoryPlannerInput \<Rightarrow> vec2" where
  "unicyclePosition p inp =
     (let unicyclePositionFromStanceFoot =
            (if correctLeft inp then (0, - nominalWidth p / 2) else (0, nominalWidth p / 2));
          footPosition = (se3_x (measuredTransform inp), se3_y (measuredTransform inp))
      in vec2_add (mat2_vec (unicycleRotation p inp) unicyclePositionFromStanceFoot) footPosition)"

definition desiredPointInAbsoluteFrame ::
  "Indeterminate \<Rightarrow> UnicycleTrajectoryPlannerParameters \<Rightarrow> UnicycleTrajectoryPlannerInput \<Rightarrow> vec2" where
  "desiredPointInAbsoluteFrame ind p inp =
     vec2_add
       (mat2_vec (unicycleRotation p inp)
          (vec2_add (referencePointDistance p) (desiredPointInRelativeFrame ind inp)))
       (unicyclePosition p inp)"

definition endTime :: "'g Impl \<Rightarrow> real" where
  "endTime s = seconds_of (initTime (input s)) + seconds_of (plannerHorizon (parameters s))"

text \<open>
  The three places of the branch where the external library can refuse, each with the
  calls that precede it: the flag is what the library answered, the state is the planner
  with the generator as the calls left it.
\<close>

definition set_new_reference ::
  "'g UnicycleGeneratorLibrary \<Rightarrow> Indeterminate \<Rightarrow> 'g Impl \<Rightarrow> bool \<times> 'g Impl" where
  \<comment> \<open>lines 553 to 560\<close>
  "set_new_reference L ind s =
     (let g1 = snd (invoke L ClearPersonFollowingDesiredTrajectory (generator s));
          r = invoke L
                (AddPersonFollowingDesiredTrajectoryPoint (endTime s)
                   (desiredPointInAbsoluteFrame ind (parameters s) (input s))) g1
      in (fst r, s\<lparr>generator := snd r\<rparr>))"

definition set_dcm_initial_state :: "'g UnicycleGeneratorLibrary \<Rightarrow> 'g Impl \<Rightarrow> bool \<times> 'g Impl" where
  \<comment> \<open>lines 566 to 573\<close>
  "set_dcm_initial_state L s =
     (let g1 = snd (invoke L
                      (SetDesiredDirectControl (plannerInput (input s) ! 0)
                         (plannerInput (input s) ! 1) (plannerInput (input s) ! 2))
                      (generator s));
          r = invoke L (SetDCMInitialState (dcmInitialState (input s))) g1
      in (fst r, s\<lparr>generator := snd r\<rparr>))"

definition regenerate :: "'g UnicycleGeneratorLibrary \<Rightarrow> 'g Impl \<Rightarrow> bool \<times> 'g Impl" where
  \<comment> \<open>lines 580 to 585\<close>
  "regenerate L s =
     (let r = invoke L
                (ReGenerate (seconds_of (initTime (input s))) (seconds_of (dt (parameters s)))
                   (endTime s) (correctLeft (input s)) (measuredPosition (input s))
                   (measuredAngle (input s)))
                (generator s)
      in (fst r, s\<lparr>generator := snd r\<rparr>))"

text \<open>
  The branch taken when the state is \<open>Running\<close> (the body of the \<^verbatim>\<open>if\<close>). Its
  result is a fault, or an early \<^verbatim>\<open>return false\<close> with the message logged
  (\<open>Inr (Some e, s)\<close>), or the state with which \<^verbatim>\<open>advance\<close> goes on
  (\<open>Inr (None, s)\<close>). \<^verbatim>\<open>plannerInput\<close> is an \<^verbatim>\<open>Eigen::VectorXd\<close> of any
  length, read by unchecked index: components 0 and 1 at lines 491 and 492, component 2
  at line 569.
\<close>

definition replan ::
  "'g UnicycleGeneratorLibrary \<Rightarrow> Indeterminate \<Rightarrow> 'g Impl \<Rightarrow> fault + (error option \<times> 'g Impl)" where
  "replan L ind s =
     (if length (plannerInput (input s)) < 2 then Inl Undefined_behaviour
      else
        let r1 = set_new_reference L ind s
        in if \<not> fst r1 then Inr (Some Error_while_setting_the_new_reference, snd r1)
           else if length (plannerInput (input s)) < 3 then Inl Undefined_behaviour
           else
             let r2 = set_dcm_initial_state L (snd r1)
             in if \<not> fst r2 then Inr (Some Failed_to_set_the_initial_state, snd r2)
                else
                  let r3 = regenerate L (snd r2)
                  in if \<not> fst r3 then Inr (Some Failed_in_computing_new_trajectory, snd r3)
                     else Inr (None, snd r3))"

subsection \<open>Publishing the output\<close>

text \<open>
  One iteration of the loop that integrates the planar CoM. The loop's variables are the
  local \<^verbatim>\<open>state\<close> (here \<open>x\<close>) and \<^verbatim>\<open>time\<close>, next to the planner's state.
\<close>

definition com_step ::
  "nat \<Rightarrow> vec4 \<times> nanoseconds \<times> 'g Impl \<Rightarrow> fault + (vec4 \<times> nanoseconds \<times> 'g Impl)" where
  "com_step i c =
     (case c of (x, time, s) \<Rightarrow>
        let out = output s; ct = comTrajectory out; dcm = dcmTrajectory out
        in if \<not> i < length (com_position ct) then Inl Undefined_behaviour
           else
             let ct1 = ct\<lparr>com_position :=
                          (com_position ct)
                            [i := vec3_set_head2 (vec4_head2 x) (com_position ct ! i)]\<rparr>
             in if \<not> i < length (dcm_position dcm) \<or> \<not> i < length (dcm_velocity dcm)
                then Inl Out_of_range_exception
                else
                  let u = vec4_of (dcm_position dcm ! i) (dcm_velocity dcm ! i);
                      dyn1 = snd (setControlInput u (dynamics (comSystem s)))
                  in case lti_dynamics dyn1 of
                       None \<Rightarrow> Inl Undefined_behaviour
                     | Some dx \<Rightarrow>
                         if \<not> i < length (com_acceleration ct1) \<or> \<not> i < length (com_velocity ct1)
                         then Inl Undefined_behaviour
                         else
                           let ct2 = ct1\<lparr>com_acceleration :=
                                           (com_acceleration ct1)
                                             [i := vec3_set_head2 (vec4_tail2 dx)
                                                     (com_acceleration ct1 ! i)]\<rparr>;
                               ct3 = ct2\<lparr>com_velocity :=
                                           (com_velocity ct2)
                                             [i := vec3_set_head2 (vec4_head2 dx)
                                                     (com_velocity ct2 ! i)]\<rparr>;
                               cs1 = snd (oneStepIntegration (dt (parameters s))
                                            ((comSystem s)\<lparr>dynamics := dyn1\<rparr>));
                               x' = solution (integrator cs1);
                               cs2 = cs1\<lparr>dynamics := snd (setState x' (dynamics cs1))\<rparr>
                           in Inr (x', time + dt (parameters s),
                                   s\<lparr>output := out\<lparr>comTrajectory := ct3\<rparr>, comSystem := cs2\<rparr>))"

lemma com_step_dcmTrajectory:
  "com_step i c = Inr c' \<Longrightarrow>
     dcmTrajectory (output (snd (snd c'))) = dcmTrajectory (output (snd (snd c)))"
  by (auto simp: com_step_def Let_def split: prod.splits if_splits option.splits)

function com_loop ::
  "nat \<Rightarrow> vec4 \<times> nanoseconds \<times> 'g Impl \<Rightarrow> fault + (vec4 \<times> nanoseconds \<times> 'g Impl)" where
  "com_loop i c =
     (if i < length (dcm_position (dcmTrajectory (output (snd (snd c)))))
      then (case com_step i c of Inl f \<Rightarrow> Inl f | Inr c' \<Rightarrow> com_loop (Suc i) c')
      else Inr c)"
  by pat_completeness auto
termination
  by (relation "measure (\<lambda>(i, c). length (dcm_position (dcmTrajectory (output (snd (snd c))))) - i)")
     (auto dest: com_step_dcmTrajectory)

declare com_loop.simps [simp del]

text \<open>One iteration of the loop that stacks the CoM height on the planar trajectory.\<close>

definition height_step :: "nat \<Rightarrow> 'g Impl \<Rightarrow> fault + 'g Impl" where
  "height_step i s =
     (let out = output s; ct = comTrajectory out; h = comHeightTrajectory s
      in if \<not> i < length (com_position ct) \<or> \<not> i < length (height_position h)
            \<or> \<not> i < length (com_velocity ct) \<or> \<not> i < length (height_velocity h)
            \<or> \<not> i < length (com_acceleration ct) \<or> \<not> i < length (height_acceleration h)
         then Inl Undefined_behaviour
         else
           Inr (s\<lparr>output := out\<lparr>comTrajectory :=
                  \<lparr>com_position =
                     (com_position ct)[i := vec3_set_z (height_position h ! i) (com_position ct ! i)],
                   com_velocity =
                     (com_velocity ct)[i := vec3_set_z (height_velocity h ! i) (com_velocity ct ! i)],
                   com_acceleration =
                     (com_acceleration ct)
                       [i := vec3_set_z (height_acceleration h ! i) (com_acceleration ct ! i)]\<rparr>\<rparr>\<rparr>))"

lemma height_step_length:
  "height_step i s = Inr s' \<Longrightarrow>
     length (com_position (comTrajectory (output s'))) =
     length (com_position (comTrajectory (output s)))"
  by (auto simp: height_step_def Let_def split: if_splits)

function height_loop :: "nat \<Rightarrow> 'g Impl \<Rightarrow> fault + 'g Impl" where
  "height_loop i s =
     (if i < length (com_position (comTrajectory (output s)))
      then (case height_step i s of Inl f \<Rightarrow> Inl f | Inr s' \<Rightarrow> height_loop (Suc i) s')
      else Inr s)"
  by pat_completeness auto
termination
  by (relation "measure (\<lambda>(i, s). length (com_position (comTrajectory (output s))) - i)")
     (auto dest: height_step_length)

declare height_loop.simps [simp del]

text \<open>
  Lines 592 to 686: everything \<^verbatim>\<open>advance\<close> does after the re-planning branch, in
  the order of the source. The mutex only orders this block against readers on other
  threads and is not modelled. First the contact status, the footsteps and the DCM
  trajectory are pulled from the generator (lines 596 to 620).
\<close>

definition pull_generator_output :: "'g UnicycleGeneratorLibrary \<Rightarrow> 'g Impl \<Rightarrow> 'g Impl" where
  "pull_generator_output L s =
     (let g = internal (generator s)
      in s\<lparr>output := (output s)
           \<lparr>contactStatus :=
              \<lparr>leftFootInContact = fst (getFeetStandingPeriods L g),
               rightFootInContact = snd (getFeetStandingPeriods L g),
               UsedLeftAsFixed = getWhenUseLeftAsFixed L g\<rparr>,
            steps := \<lparr>leftSteps = getLeftSteps L g, rightSteps = getRightSteps L g\<rparr>,
            dcmTrajectory :=
              \<lparr>dcm_position = getDCMPosition L g, dcm_velocity = getDCMVelocity L g\<rparr>\<rparr>\<rparr>)"

text \<open>
  Lines 623 to 636: the initial CoM state is given to the dynamical system and the three
  CoM sequences are resized to the number of DCM positions. The result holds the loop's
  variables.
\<close>

definition com_loop_entry :: "Indeterminate \<Rightarrow> 'g Impl \<Rightarrow> vec4 \<times> nanoseconds \<times> 'g Impl" where
  "com_loop_entry ind s =
     (let x0 = vec4_of (initialPlanarPosition (comInitialState (input s)))
                 (initialPlanarVelocity (comInitialState (input s)));
          n = length (dcm_position (dcmTrajectory (output s)));
          ct = comTrajectory (output s)
      in (x0, initTime (input s),
          s\<lparr>comSystem := (comSystem s)\<lparr>dynamics := snd (setState x0 (dynamics (comSystem s)))\<rparr>,
            output := (output s)
              \<lparr>comTrajectory :=
                 \<lparr>com_position = resize n (new_Vector3d ind) (com_position ct),
                  com_velocity = resize n (new_Vector3d ind) (com_velocity ct),
                  com_acceleration = resize n (new_Vector3d ind) (com_acceleration ct)\<rparr>\<rparr>\<rparr>))"

text \<open>Lines 667 to 670: the CoM height profiles are pulled from the generator.\<close>

definition pull_com_height :: "'g UnicycleGeneratorLibrary \<Rightarrow> 'g Impl \<Rightarrow> 'g Impl" where
  "pull_com_height L s =
     (let g1 = snd (invoke L AddCoMHeightTrajectoryGenerator (generator s));
          g = internal g1
      in s\<lparr>generator := g1,
           comHeightTrajectory :=
             \<lparr>height_position = getCoMHeightTrajectory L g,
              height_velocity = getCoMHeightVelocity L g,
              height_acceleration = getCoMHeightAccelerationProfile L g\<rparr>\<rparr>)"

text \<open>Lines 682 to 684: the merge points are pulled and the state becomes \<open>Running\<close>.\<close>

definition commit :: "'g UnicycleGeneratorLibrary \<Rightarrow> 'g Impl \<Rightarrow> 'g Impl" where
  "commit L s =
     s\<lparr>output := (output s)\<lparr>mergePoints := getMergePoints L (internal (generator s))\<rparr>,
       state := Running\<rparr>"

definition publish :: "'g UnicycleGeneratorLibrary \<Rightarrow> Indeterminate \<Rightarrow> 'g Impl \<Rightarrow> fault + 'g Impl" where
  "publish L ind s =
     (case com_loop 0 (com_loop_entry ind (pull_generator_output L s)) of
        Inl f \<Rightarrow> Inl f
      | Inr c \<Rightarrow>
          (case height_loop 0 (pull_com_height L (snd (snd c))) of
             Inl f \<Rightarrow> Inl f
           | Inr s3 \<Rightarrow> Inr (commit L s3)))"

subsection \<open>advance\<close>

text \<open>Lines 474 to 479, which precede the branch.\<close>

definition advance_entry :: "'g UnicycleGeneratorLibrary \<Rightarrow> 'g Impl \<Rightarrow> 'g Impl" where
  "advance_entry L s =
     s\<lparr>generator := snd (invoke L AddDCMTrajectoryGenerator (generator s)),
       impl_initTime := initTime (input s)\<rparr>"

definition advance ::
  "'g UnicycleGeneratorLibrary \<Rightarrow> Indeterminate \<Rightarrow> 'g Impl \<Rightarrow> fault + (bool \<times> error list \<times> 'g Impl)" where
  "advance L ind s =
     (if state s = NotInitialized then Inr (False, [Advance_planner_never_initialized], s)
      else
        let s0 = advance_entry L s
        in case (if state s0 = Running then replan L ind s0 else Inr (None, s0)) of
             Inl f \<Rightarrow> Inl f
           | Inr (Some e, s1) \<Rightarrow> Inr (False, [e], s1)
           | Inr (None, s1) \<Rightarrow>
               (case publish L ind s1 of
                  Inl f \<Rightarrow> Inl f
                | Inr s2 \<Rightarrow> Inr (True, [], s2)))"

section \<open>getContactPhaseList\<close>

text \<open>
  Modelled from the spec: \<^verbatim>\<open>Contacts::ContactPhaseList\<close> belongs to the repository
  but its source is not part of the planner's file. It is modelled by the per-foot contact
  lists it holds: none when default-constructed, and \<^verbatim>\<open>setLists\<close> stores the map
  it is given.

  \<^verbatim>\<open>UnicycleUtilities::getContactList\<close> (the contact-phase assembler) is not part
  of the planner's file either, and is an argument of the model: from the init time, the
  sample period, one foot's contact timeline and steps, the contact frame index and the
  contact name it gives a flag and the contact list it has built. The step phases that
  the source pulls from the generator first are not used afterwards.
\<close>

record 'cl ContactPhaseList =
  lists :: "string \<rightharpoonup> 'cl"

definition make_ContactPhaseList :: "'cl ContactPhaseList" where
  "make_ContactPhaseList = \<lparr>lists = Map.empty\<rparr>"

definition setLists :: "(string \<rightharpoonup> 'cl) \<Rightarrow> 'cl ContactPhaseList \<Rightarrow> 'cl ContactPhaseList" where
  "setLists m cpl = cpl\<lparr>lists := m\<rparr>"

type_synonym 'cl getContactList =
  "nanoseconds \<Rightarrow> nanoseconds \<Rightarrow> bool list \<Rightarrow> Step list \<Rightarrow> int \<Rightarrow> string \<Rightarrow> bool \<times> 'cl"

definition getContactPhaseList ::
  "'cl getContactList \<Rightarrow> 'g Impl \<Rightarrow> ('cl ContactPhaseList \<times> error list) \<times> 'g Impl" where
  "getContactPhaseList getContactList s =
     (let contactPhaseList = make_ContactPhaseList
      in if isOutputValid s = False
         then ((contactPhaseList, [The_output_is_not_valid]), s)
         else
           let l = getContactList (impl_initTime s) (dt (parameters s))
                     (leftFootInContact (contactStatus (output s)))
                     (leftSteps (steps (output s)))
                     (leftContactFrameIndex (parameters s)) ''left_foot''
           in if \<not> fst l
              then ((contactPhaseList, [Error_while_getting_the_left_contact_list]), s)
              else
                let r = getContactList (impl_initTime s) (dt (parameters s))
                          (rightFootInContact (contactStatus (output s)))
                          (rightSteps (steps (output s)))
                          (rightContactFrameIndex (parameters s)) ''right_foot''
                in if \<not> fst r
                   then ((contactPhaseList, [Error_while_getting_the_right_contact_list]), s)
                   else
                     ((setLists [''left_foot'' \<mapsto> snd l, ''right_foot'' \<mapsto> snd r]
                         contactPhaseList, []), s))"

section \<open>initialize\<close>

subsection \<open>The parameters handler\<close>

text \<open>
  \<^verbatim>\<open>IParametersHandler\<close> is not part of the planner's file, and is an argument of the
  model: for each type of variable the planner asks for, what \<^verbatim>\<open>getParameter\<close>
  answers for a name (\<open>None\<close> when it returns false and leaves the variable as it was).
  The weak pointer given to \<^verbatim>\<open>initialize\<close> may have expired, so the handler is
  optional.
\<close>

record IParametersHandler =
  getParameter_double :: "string \<Rightarrow> real option"
  getParameter_string :: "string \<Rightarrow> string option"
  getParameter_bool :: "string \<Rightarrow> bool option"
  getParameter_Vector2d :: "string \<Rightarrow> vec2 option"

subsection \<open>Local variables\<close>

text \<open>
  The local variables of \<^verbatim>\<open>initialize\<close> that are read somewhere. Most are declared
  without a value, so what they hold at entry is an argument of the model; the source
  gives a value to four of them, and a \<^verbatim>\<open>std::string\<close> starts empty.
\<close>

record initialize_locals =
  unicycleControllerAsString :: string
  unicycleGain :: real
  slowWhenTurningGain :: real
  slowWhenBackwardFactor :: real
  slowWhenSidewaysFactor :: real
  local_dt :: real
  local_plannerHorizon :: real
  positionWeight :: real
  timeWeight :: real
  maxStepLength :: real
  minStepLength :: real
  maxLengthBackwardFactor :: real
  minWidth :: real
  minStepDuration :: real
  maxStepDuration :: real
  nominalDuration :: real
  maxAngleVariation :: real
  minAngleVariation :: real
  saturationFactors :: vec2
  startWithLeft :: bool
  startWithSameFoot :: bool
  terminalStep :: bool
  mergePointRatios :: vec2
  switchOverSwingRatio :: real
  lastStepSwitchTime :: real
  isPauseActive :: bool
  comHeight :: real
  comHeightDelta :: real
  leftZMPDelta :: vec2
  rightZMPDelta :: vec2
  lastStepDCMOffset :: real
  unicycleController :: UnicycleController

definition declare_locals :: "initialize_locals \<Rightarrow> initialize_locals" where
  "declare_locals l0 =
     l0\<lparr>unicycleControllerAsString := [],
        startWithLeft := True, startWithSameFoot := True, terminalStep := True,
        isPauseActive := True\<rparr>"

text \<open>
  The body of \<^verbatim>\<open>initialize\<close> is a straight line of statements over the flag
  \<^verbatim>\<open>ok\<close>, the local variables and the planner's private state; what has been
  logged is kept beside them.
\<close>

record 'g initialize_frame =
  ok :: bool
  logged :: "error list"
  loc :: initialize_locals
  impl :: "'g Impl"

type_synonym 'g statement = "'g initialize_frame \<Rightarrow> 'g initialize_frame"

definition to_local :: "(initialize_locals \<Rightarrow> initialize_locals) \<Rightarrow> 'g statement" where
  "to_local f fr = fr\<lparr>loc := f (loc fr)\<rparr>"

definition to_parameters ::
  "(UnicycleTrajectoryPlannerParameters \<Rightarrow> UnicycleTrajectoryPlannerParameters) \<Rightarrow> 'g statement" where
  "to_parameters f fr = fr\<lparr>impl := (impl fr)\<lparr>parameters := f (parameters (impl fr))\<rparr>\<rparr>"

definition to_comSystem :: "(COMSystem \<Rightarrow> COMSystem) \<Rightarrow> 'g statement" where
  "to_comSystem f fr = fr\<lparr>impl := (impl fr)\<lparr>comSystem := f (comSystem (impl fr))\<rparr>\<rparr>"

definition loadParam ::
  "(string \<Rightarrow> 'a option) \<Rightarrow> string \<Rightarrow> ('a \<Rightarrow> 'g statement) \<Rightarrow> 'g statement" where
  \<comment> \<open>\<^verbatim>\<open>ok = ok && loadParam(name, variable)\<close>: nothing happens once \<^verbatim>\<open>ok\<close>
      is false\<close>
  "loadParam getParameter name store fr =
     (if ok fr
      then (case getParameter name of
              Some v \<Rightarrow> store v fr
            | None \<Rightarrow> fr\<lparr>ok := False, logged := logged fr @ [Unable_to_get_the_parameter name]\<rparr>)
      else fr)"

definition loadParamWithFallback ::
  "(string \<Rightarrow> 'a option) \<Rightarrow> string \<Rightarrow> ('a \<Rightarrow> 'g statement) \<Rightarrow> 'a \<Rightarrow> 'g statement" where
  \<comment> \<open>\<^verbatim>\<open>ok = ok && loadParamWithFallback(name, variable, fallback)\<close>\<close>
  "loadParamWithFallback getParameter name store fallback fr =
     (if ok fr
      then store (case getParameter name of Some v \<Rightarrow> v | None \<Rightarrow> fallback) fr
      else fr)"

definition and_generator ::
  "'g UnicycleGeneratorLibrary \<Rightarrow> ('g initialize_frame \<Rightarrow> gen_call) \<Rightarrow> 'g statement" where
  \<comment> \<open>\<^verbatim>\<open>ok = ok && generator call\<close>\<close>
  "and_generator L c fr =
     (if ok fr
      then let r = invoke L (c fr) (generator (impl fr))
           in fr\<lparr>ok := fst r, impl := (impl fr)\<lparr>generator := snd r\<rparr>\<rparr>
      else fr)"

definition call_generator ::
  "'g UnicycleGeneratorLibrary \<Rightarrow> ('g initialize_frame \<Rightarrow> gen_call) \<Rightarrow> 'g statement" where
  \<comment> \<open>a generator call whose result is not looked at\<close>
  "call_generator L c fr =
     fr\<lparr>impl := (impl fr)\<lparr>generator := snd (invoke L (c fr) (generator (impl fr)))\<rparr>\<rparr>"

definition deg2rad :: "real \<Rightarrow> real" where
  "deg2rad x = x * pi / 180"

definition setUnicycleControllerFromString ::
  "string \<Rightarrow> UnicycleController \<Rightarrow> bool \<times> error list \<times> UnicycleController" where
  "setUnicycleControllerFromString unicycleControllerAsString' unicycleController' =
     (if unicycleControllerAsString' = ''personFollowing'' then (True, [], PERSON_FOLLOWING)
      else if unicycleControllerAsString' = ''direct'' then (True, [], DIRECT)
      else (False, [Invalid_controller_type], unicycleController'))"

definition and_setUnicycleControllerFromString :: "'g statement" where
  \<comment> \<open>line 346\<close>
  "and_setUnicycleControllerFromString fr =
     (if ok fr
      then let r = setUnicycleControllerFromString (unicycleControllerAsString (loc fr))
                     (unicycleController (loc fr))
           in fr\<lparr>ok := fst r, logged := logged fr @ fst (snd r),
                 loc := (loc fr)\<lparr>unicycleController := snd (snd r)\<rparr>\<rparr>
      else fr)"

subsection \<open>Parsing the parameters (lines 267 to 315)\<close>

definition parse_statements :: "IParametersHandler \<Rightarrow> 'g statement list" where
  "parse_statements h =
     [loadParam (getParameter_Vector2d h) ''referencePosition''
        (\<lambda>v. to_parameters (\<lambda>p. p\<lparr>referencePointDistance := v\<rparr>)),
      loadParamWithFallback (getParameter_string h) ''controlType''
        (\<lambda>v. to_local (\<lambda>l. l\<lparr>unicycleControllerAsString := v\<rparr>)) ''direct'',
      loadParamWithFallback (getParameter_double h) ''unicycleGain''
        (\<lambda>v. to_local (\<lambda>l. l\<lparr>unicycleGain := v\<rparr>)) 10.0,
      loadParamWithFallback (getParameter_double h) ''slowWhenTurningGain''
        (\<lambda>v. to_local (\<lambda>l. l\<lparr>slowWhenTurningGain := v\<rparr>)) 2.0,
      loadParamWithFallback (getParameter_double h) ''slowWhenBackwardFactor''
        (\<lambda>v. to_local (\<lambda>l. l\<lparr>slowWhenBackwardFactor := v\<rparr>)) 0.4,
      loadParamWithFallback (getParameter_double h) ''slowWhenSidewaysFactor''
        (\<lambda>v. to_local (\<lambda>l. l\<lparr>slowWhenSidewaysFactor := v\<rparr>)) 0.2,
      loadParamWithFallback (getParameter_double h) ''dt''
        (\<lambda>v. to_local (\<lambda>l. l\<lparr>local_dt := v\<rparr>)) 0.002,
      (\<lambda>fr. to_parameters (\<lambda>p. p\<lparr>dt := nanoseconds_of (local_dt (loc fr))\<rparr>) fr),
      loadParamWithFallback (getParameter_double h) ''plannerHorizon''
        (\<lambda>v. to_local (\<lambda>l. l\<lparr>local_plannerHorizon := v\<rparr>)) 20.0,
      (\<lambda>fr. to_parameters
              (\<lambda>p. p\<lparr>plannerHorizon := nanoseconds_of (local_plannerHorizon (loc fr))\<rparr>) fr),
      loadParamWithFallback (getParameter_double h) ''positionWeight''
        (\<lambda>v. to_local (\<lambda>l. l\<lparr>positionWeight := v\<rparr>)) 1.0,
      loadParamWithFallback (getParameter_double h) ''timeWeight''
        (\<lambda>v. to_local (\<lambda>l. l\<lparr>timeWeight := v\<rparr>)) 2.5,
      loadParamWithFallback (getParameter_double h) ''maxStepLength''
        (\<lambda>v. to_local (\<lambda>l. l\<lparr>maxStepLength := v\<rparr>)) 0.32,
      loadParamWithFallback (getParameter_double h) ''minStepLength''
        (\<lambda>v. to_local (\<lambda>l. l\<lparr>minStepLength := v\<rparr>)) 0.01,
      loadParamWithFallback (getParameter_double h) ''maxLengthBackwardFactor''
        (\<lambda>v. to_local (\<lambda>l. l\<lparr>maxLengthBackwardFactor := v\<rparr>)) 0.8,
      loadParamWithFallback (getParameter_double h) ''nominalWidth''
        (\<lambda>v. to_parameters (\<lambda>p. p\<lparr>nominalWidth := v\<rparr>)) 0.20,
      loadParamWithFallback (getParameter_double h) ''minWidth''
        (\<lambda>v. to_local (\<lambda>l. l\<lparr>minWidth := v\<rparr>)) 0.14,
      loadParamWithFallback (getParameter_double h) ''minStepDuration''
        (\<lambda>v. to_local (\<lambda>l. l\<lparr>minStepDuration := v\<rparr>)) 0.65,
      loadParamWithFallback (getParameter_double h) ''maxStepDuration''
        (\<lambda>v. to_local (\<lambda>l. l\<lparr>maxStepDuration := v\<rparr>)) 1.5,
      loadParamWithFallback (getParameter_double h) ''nominalDuration''
        (\<lambda>v. to_local (\<lambda>l. l\<lparr>nominalDuration := v\<rparr>)) 0.8,
      loadParamWithFallback (getParameter_double h) ''maxAngleVariation''
        (\<lambda>v. to_local (\<lambda>l. l\<lparr>maxAngleVariation := v\<rparr>)) 18.0,
      loadParamWithFallback (getParameter_double h) ''minAngleVariation''
        (\<lambda>v. to_local (\<lambda>l. l\<lparr>minAngleVariation := v\<rparr>)) 5.0,
      loadParam (getParameter_Vector2d h) ''saturationFactors''
        (\<lambda>v. to_local (\<lambda>l. l\<lparr>saturationFactors := v\<rparr>)),
      loadParamWithFallback (getParameter_double h) ''leftYawDeltaInDeg''
        (\<lambda>v. to_parameters (\<lambda>p. p\<lparr>leftYawDeltaInRad := v\<rparr>)) 0.0,
      loadParamWithFallback (getParameter_double h) ''rightYawDeltaInDeg''
        (\<lambda>v. to_parameters (\<lambda>p. p\<lparr>rightYawDeltaInRad := v\<rparr>)) 0.0,
      to_parameters (\<lambda>p. p\<lparr>leftYawDeltaInRad := deg2rad (leftYawDeltaInRad p)\<rparr>),
      to_parameters (\<lambda>p. p\<lparr>rightYawDeltaInRad := deg2rad (rightYawDeltaInRad p)\<rparr>),
      loadParamWithFallback (getParameter_bool h) ''swingLeft''
        (\<lambda>v. to_local (\<lambda>l. l\<lparr>startWithLeft := v\<rparr>)) False,
      loadParamWithFallback (getParameter_bool h) ''startAlwaysSameFoot''
        (\<lambda>v. to_local (\<lambda>l. l\<lparr>startWithSameFoot := v\<rparr>)) True,
      loadParamWithFallback (getParameter_bool h) ''terminalStep''
        (\<lambda>v. to_local (\<lambda>l. l\<lparr>terminalStep := v\<rparr>)) True,
      loadParam (getParameter_Vector2d h) ''mergePointRatios''
        (\<lambda>v. to_local (\<lambda>l. l\<lparr>mergePointRatios := v\<rparr>)),
      loadParamWithFallback (getParameter_double h) ''switchOverSwingRatio''
        (\<lambda>v. to_local (\<lambda>l. l\<lparr>switchOverSwingRatio := v\<rparr>)) 0.2,
      loadParamWithFallback (getParameter_double h) ''lastStepSwitchTime''
        (\<lambda>v. to_local (\<lambda>l. l\<lparr>lastStepSwitchTime := v\<rparr>)) 0.3,
      loadParamWithFallback (getParameter_bool h) ''isPauseActive''
        (\<lambda>v. to_local (\<lambda>l. l\<lparr>isPauseActive := v\<rparr>)) True,
      loadParamWithFallback (getParameter_double h) ''comHeight''
        (\<lambda>v. to_local (\<lambda>l. l\<lparr>comHeight := v\<rparr>)) 0.70,
      loadParamWithFallback (getParameter_double h) ''comHeightDelta''
        (\<lambda>v. to_local (\<lambda>l. l\<lparr>comHeightDelta := v\<rparr>)) 0.01,
      loadParam (getParameter_Vector2d h) ''leftZMPDelta''
        (\<lambda>v. to_local (\<lambda>l. l\<lparr>leftZMPDelta := v\<rparr>)),
      loadParam (getParameter_Vector2d h) ''rightZMPDelta''
        (\<lambda>v. to_local (\<lambda>l. l\<lparr>rightZMPDelta := v\<rparr>)),
      loadParamWithFallback (getParameter_double h) ''lastStepDCMOffset''
        (\<lambda>v. to_local (\<lambda>l. l\<lparr>lastStepDCMOffset := v\<rparr>)) 0.5,
      loadParam (getParameter_string h) ''leftContactFrameName''
        (\<lambda>v. to_parameters (\<lambda>p. p\<lparr>leftContactFrameName := v\<rparr>)),
      loadParam (getParameter_string h) ''rightContactFrameName''
        (\<lambda>v. to_parameters (\<lambda>p. p\<lparr>rightContactFrameName := v\<rparr>))]"

subsection \<open>Configuring the generator (lines 318 to 366)\<close>

text \<open>
  Modelled from the spec: \<^verbatim>\<open>Math::StandardAccelerationOfGravitation\<close> is a constant
  of the repository declared outside the planner's file; the spec gives \<open>g = 9.81\<close>.
\<close>

definition StandardAccelerationOfGravitation :: real where
  "StandardAccelerationOfGravitation = 9.81"

text \<open>
  Line 363 divides and takes the root in \<^verbatim>\<open>double\<close> with no check of the height. For
  a positive height the real quotient and root below are what it computes, up to rounding.
  For a height of zero the \<^verbatim>\<open>double\<close> quotient is an infinity, and for a negative
  height the root is NaN; a \<^typ>\<open>real\<close> has neither, and HOL's \<open>x / 0 = 0\<close> and its
  root of a negative number are not what the program stores. Whatever is stated of
  \<open>omega\<close> and of the matrices built from it is therefore stated for a positive height
  only.
\<close>

definition omega :: "initialize_locals \<Rightarrow> real" where
  \<comment> \<open>line 363, for \<open>0 < comHeight l\<close>\<close>
  "omega l = sqrt (StandardAccelerationOfGravitation / comHeight l)"

definition configure_statements :: "'g UnicycleGeneratorLibrary \<Rightarrow> 'g statement list" where
  "configure_statements L =
     [and_generator L (\<lambda>fr. SetDesiredPersonDistance
          (vec2_get (referencePointDistance (parameters (impl fr))) 0)
          (vec2_get (referencePointDistance (parameters (impl fr))) 1)),
      and_generator L (\<lambda>fr. SetPersonFollowingControllerGain (unicycleGain (loc fr))),
      and_generator L (\<lambda>fr. SetSlowWhenTurnGain (slowWhenTurningGain (loc fr))),
      and_generator L (\<lambda>fr. SetSlowWhenBackwardFactor (slowWhenBackwardFactor (loc fr))),
      and_generator L (\<lambda>fr. SetSlowWhenSidewaysFactor (slowWhenBackwardFactor (loc fr))),
      and_generator L (\<lambda>fr. SetMaxStepLength (maxStepLength (loc fr))
          (maxLengthBackwardFactor (loc fr))),
      and_generator L (\<lambda>fr. SetMaximumIntegratorStepSize
          (seconds_of (dt (parameters (impl fr))))),
      and_generator L (\<lambda>fr. SetWidthSetting (minWidth (loc fr))
          (nominalWidth (parameters (impl fr)))),
      and_generator L (\<lambda>fr. SetMaxAngleVariation (maxAngleVariation (loc fr))),
      and_generator L (\<lambda>fr. SetMinimumAngleForNewSteps (minAngleVariation (loc fr))),
      and_generator L (\<lambda>fr. SetCostWeights (positionWeight (loc fr)) (timeWeight (loc fr))),
      and_generator L (\<lambda>fr. SetStepTimings (minStepDuration (loc fr)) (maxStepDuration (loc fr))
          (nominalDuration (loc fr))),
      and_generator L (\<lambda>fr. SetPlannerPeriod (seconds_of (dt (parameters (impl fr))))),
      and_generator L (\<lambda>fr. SetMinimumStepLength (minStepLength (loc fr))),
      and_generator L (\<lambda>fr. SetSaturationsConservativeFactors
          (vec2_get (saturationFactors (loc fr)) 0) (vec2_get (saturationFactors (loc fr)) 1)),
      call_generator L (\<lambda>fr. SetLeftFootYawOffsetInRadians
          (leftYawDeltaInRad (parameters (impl fr)))),
      call_generator L (\<lambda>fr. SetRightFootYawOffsetInRadians
          (rightYawDeltaInRad (parameters (impl fr)))),
      call_generator L (\<lambda>fr. AddTerminalStep (terminalStep (loc fr))),
      call_generator L (\<lambda>fr. StartWithLeft (startWithLeft (loc fr))),
      call_generator L (\<lambda>fr. ResetStartingFootIfStill (startWithSameFoot (loc fr))),
      and_setUnicycleControllerFromString,
      and_generator L (\<lambda>fr. SetUnicycleController (unicycleController (loc fr))),
      and_generator L (\<lambda>fr. SetSwitchOverSwingRatio (switchOverSwingRatio (loc fr))),
      and_generator L (\<lambda>fr. SetTerminalHalfSwitchTime (lastStepSwitchTime (loc fr))),
      and_generator L (\<lambda>fr. SetPauseConditions (maxStepDuration (loc fr))
          (nominalDuration (loc fr))),
      and_generator L (\<lambda>fr. SetMergePointRatio (vec2_get (mergePointRatios (loc fr)) 0)
          (vec2_get (mergePointRatios (loc fr)) 1)),
      call_generator L (\<lambda>fr. SetPauseActive (isPauseActive (loc fr))),
      call_generator L (\<lambda>fr. AddCoMHeightTrajectoryGenerator),
      and_generator L (\<lambda>fr. SetCoMHeightSettings (comHeight (loc fr)) (comHeightDelta (loc fr))),
      call_generator L (\<lambda>fr. AddDCMTrajectoryGenerator),
      call_generator L (\<lambda>fr. SetFootOriginOffset (leftZMPDelta (loc fr)) (rightZMPDelta (loc fr))),
      call_generator L (\<lambda>fr. SetOmega (omega (loc fr))),
      call_generator L (\<lambda>fr. SetFirstDCMTrajectoryMode FifthOrderPoly),
      and_generator L (\<lambda>fr. SetLastStepDCMOffsetPercentage (lastStepDCMOffset (loc fr)))]"

subsection \<open>Setting up the CoM system (lines 369 to 383)\<close>

text \<open>
  Modelled from the spec: the setters of the integrator, like those of the system. The
  integrator is told which system it integrates (here the one of the same
  \<^verbatim>\<open>COMSystem\<close>) and stores its step.
\<close>

definition setDynamicalSystem :: "COMSystem \<Rightarrow> bool \<times> COMSystem" where
  "setDynamicalSystem cs = (True, cs)"

definition setIntegrationStep :: "nanoseconds \<Rightarrow> COMSystem \<Rightarrow> bool \<times> COMSystem" where
  "setIntegrationStep h cs = (True, cs\<lparr>integrator := (integrator cs)\<lparr>integrationStep := h\<rparr>\<rparr>)"

definition and_comSystem :: "('g initialize_frame \<Rightarrow> COMSystem \<Rightarrow> bool \<times> COMSystem) \<Rightarrow> 'g statement" where
  \<comment> \<open>\<^verbatim>\<open>ok = ok && a setter of the CoM system\<close>\<close>
  "and_comSystem f fr =
     (if ok fr
      then let r = f fr (comSystem (impl fr))
           in fr\<lparr>ok := fst r, impl := (impl fr)\<lparr>comSystem := snd r\<rparr>\<rparr>
      else fr)"

definition on_dynamics ::
  "(LinearTimeInvariantSystem \<Rightarrow> bool \<times> LinearTimeInvariantSystem) \<Rightarrow> COMSystem \<Rightarrow> bool \<times> COMSystem" where
  "on_dynamics f cs = (fst (f (dynamics cs)), cs\<lparr>dynamics := snd (f (dynamics cs))\<rparr>)"

definition matrix_A :: "initialize_locals \<Rightarrow> mat4" where
  \<comment> \<open>line 376\<close>
  "matrix_A l = mat4_scale (- omega l) mat4_Identity"

definition matrix_B :: "initialize_locals \<Rightarrow> mat4" where
  \<comment> \<open>line 377\<close>
  "matrix_B l = mat4_neg (matrix_A l)"

definition comSystem_statements :: "'g statement list" where
  "comSystem_statements =
     [to_comSystem (\<lambda>cs. cs\<lparr>dynamics := make_LinearTimeInvariantSystem\<rparr>),
      to_comSystem (\<lambda>cs. cs\<lparr>integrator := make_RK4\<rparr>),
      and_comSystem (\<lambda>fr. on_dynamics (setSystemMatrices (matrix_A (loc fr)) (matrix_B (loc fr)))),
      and_comSystem (\<lambda>fr. on_dynamics (setState vec4_zero)),
      and_comSystem (\<lambda>fr. setDynamicalSystem),
      and_comSystem (\<lambda>fr. setIntegrationStep (dt (parameters (impl fr))))]"

subsection \<open>generateFirstTrajectory\<close>

definition generateFirstTrajectory ::
  "'g UnicycleGeneratorLibrary \<Rightarrow> 'g Impl \<Rightarrow> bool \<times> error list \<times> 'g Impl" where
  "generateFirstTrajectory L s =
     (let g1 = snd (invoke L ClearPersonFollowingDesiredTrajectory (generator s));
          g2 = snd (invoke L (SetDesiredDirectControl 0 0 0) g1);
          g3 = snd (invoke L ClearLeftSteps g2);
          g4 = snd (invoke L ClearRightSteps g3);
          initTime' = 0;
          endTime' = initTime' + seconds_of (plannerHorizon (parameters s));
          dt' = seconds_of (dt (parameters s));
          m_personFollowingDesiredPoint =
            (vec2_get (referencePointDistance (parameters s)) 0,
             vec2_get (referencePointDistance (parameters s)) 1);
          r5 = invoke L
                 (AddPersonFollowingDesiredTrajectoryPoint initTime' m_personFollowingDesiredPoint) g4
      in if \<not> fst r5
         then (False, [Error_while_setting_the_initial_point], s\<lparr>generator := snd r5\<rparr>)
         else
           let r6 = invoke L
                      (AddPersonFollowingDesiredTrajectoryPoint endTime'
                         m_personFollowingDesiredPoint) (snd r5)
           in if \<not> fst r6
              then (False, [Error_while_setting_the_final_point], s\<lparr>generator := snd r6\<rparr>)
              else
                let r7 = invoke L (Generate initTime' dt' endTime') (snd r6)
                in if \<not> fst r7
                   then (False, [Error_while_computing_the_first_trajectories],
                         s\<lparr>generator := snd r7\<rparr>)
                   else (True, [], s\<lparr>generator := snd r7\<rparr>))"

definition and_generateFirstTrajectory :: "'g UnicycleGeneratorLibrary \<Rightarrow> 'g statement" where
  \<comment> \<open>line 386\<close>
  "and_generateFirstTrajectory L fr =
     (if ok fr
      then let r = generateFirstTrajectory L (impl fr)
           in fr\<lparr>ok := fst r, logged := logged fr @ fst (snd r), impl := snd (snd r)\<rparr>
      else fr)"

subsection \<open>initialize\<close>

definition run :: "'g statement list \<Rightarrow> 'g statement" where
  "run statements fr = fold (\<lambda>statement fr. statement fr) statements fr"

definition initialize_statements ::
  "'g UnicycleGeneratorLibrary \<Rightarrow> IParametersHandler \<Rightarrow> 'g statement list" where
  "initialize_statements L h =
     parse_statements h @ configure_statements L @ comSystem_statements
       @ [and_generateFirstTrajectory L]"

text \<open>
  The foot prints and step phases pulled after line 386 only feed debug messages. The
  state is set to \<open>Initialized\<close> when \<^verbatim>\<open>ok\<close> is still true, and is left as it was
  otherwise.
\<close>

definition initialize ::
  "'g UnicycleGeneratorLibrary \<Rightarrow> initialize_locals \<Rightarrow> IParametersHandler option \<Rightarrow> 'g Impl
     \<Rightarrow> bool \<times> error list \<times> 'g Impl" where
  "initialize L l0 handler s =
     (case handler of
        None \<Rightarrow> (False, [Invalid_parameter_handler], s)
      | Some h \<Rightarrow>
          let fr = run (initialize_statements L h)
                     \<lparr>ok = True, logged = [], loc = declare_locals l0, impl = s\<rparr>
          in (ok fr, logged fr,
              if ok fr then (impl fr)\<lparr>state := Initialized\<rparr> else impl fr))"

lemmas statement_defs =
  loadParam_def loadParamWithFallback_def to_local_def to_parameters_def to_comSystem_def
  and_generator_def call_generator_def and_comSystem_def on_dynamics_def
  and_setUnicycleControllerFromString_def and_generateFirstTrajectory_def


section \<open>Test doubles and example states\<close>

text \<open>
  A generator library double: it answers every command with the flag \<open>accepts\<close> gives
  it, has no internal state, and reports trajectories of \<open>n\<close> samples. A kinematic
  model double knows a list of frames. A contact-list builder double succeeds for the
  contact names \<open>builds\<close> accepts and returns the init time and the number of footsteps it
  was given.
\<close>

definition stub_library :: "(gen_call \<Rightarrow> bool) \<Rightarrow> nat \<Rightarrow> unit UnicycleGeneratorLibrary" where
  "stub_library accepts n =
     \<lparr>command = (\<lambda>c g. (accepts c, g)),
      getFeetStandingPeriods = (\<lambda>g. (replicate n True, replicate n True)),
      getWhenUseLeftAsFixed = (\<lambda>g. replicate n True),
      getLeftSteps = (\<lambda>g. [\<lparr>step_position = (0, 0.1), angle = 0, impactTime = 0\<rparr>]),
      getRightSteps = (\<lambda>g. [\<lparr>step_position = (0, - 0.1), angle = 0, impactTime = 0\<rparr>]),
      getDCMPosition = (\<lambda>g. replicate n (0, 0)),
      getDCMVelocity = (\<lambda>g. replicate n (0, 0)),
      getCoMHeightTrajectory = (\<lambda>g. replicate n 0.7),
      getCoMHeightVelocity = (\<lambda>g. replicate n 0),
      getCoMHeightAccelerationProfile = (\<lambda>g. replicate n 0),
      getMergePoints = (\<lambda>g. [0])\<rparr>"

definition zero_storage :: Indeterminate where
  "zero_storage = \<lparr>new_Vector2d = (0, 0), new_Vector3d = (0, 0, 0)\<rparr>"

definition example_planner :: "FSM \<Rightarrow> unit Impl" where
  "example_planner st =
     (make_Impl ())
       \<lparr>state := st,
        input := (generateDummyUnicycleTrajectoryPlannerInput zero_storage)\<lparr>initTime := 5\<rparr>,
        parameters := (parameters (make_Impl ()))
          \<lparr>dt := 2000000, plannerHorizon := 20000000000, nominalWidth := 0.2,
           leftContactFrameName := ''l_sole'', rightContactFrameName := ''r_sole''\<rparr>,
        comSystem :=
          \<lparr>dynamics = snd (setSystemMatrices (mat4_neg mat4_Identity) mat4_Identity
                              make_LinearTimeInvariantSystem),
           integrator = make_RK4\<lparr>integrationStep := 2000000\<rparr>\<rparr>\<rparr>"

definition refuses_ReGenerate :: "gen_call \<Rightarrow> bool" where
  "refuses_ReGenerate c = (case c of ReGenerate t0 h t1 l p a \<Rightarrow> False | _ \<Rightarrow> True)"

text \<open>
  A parameters handler double that has the required parameters, the two slow-down factors
  and the CoM height, and leaves every other parameter to its fallback; and local
  variables that hold zeros at entry.
\<close>

definition example_handler :: IParametersHandler where
  "example_handler =
     \<lparr>getParameter_double =
        map_of [(''slowWhenBackwardFactor'', 0.4), (''slowWhenSidewaysFactor'', 0.2),
                (''comHeight'', 0.70)],
      getParameter_string =
        map_of [(''leftContactFrameName'', ''l_sole''), (''rightContactFrameName'', ''r_sole'')],
      getParameter_bool = map_of [],
      getParameter_Vector2d =
        map_of [(''referencePosition'', (0.1, 0)), (''saturationFactors'', (0.7, 0.7)),
                (''mergePointRatios'', (0.4, 0.4)), (''leftZMPDelta'', (0, 0)),
                (''rightZMPDelta'', (0, 0))]\<rparr>"

definition zero_locals :: initialize_locals where
  "zero_locals =
     \<lparr>unicycleControllerAsString = [], unicycleGain = 0, slowWhenTurningGain = 0,
      slowWhenBackwardFactor = 0, slowWhenSidewaysFactor = 0, local_dt = 0,
      local_plannerHorizon = 0, positionWeight = 0, timeWeight = 0, maxStepLength = 0,
      minStepLength = 0, maxLengthBackwardFactor = 0, minWidth = 0, minStepDuration = 0,
      maxStepDuration = 0, nominalDuration = 0, maxAngleVariation = 0, minAngleVariation = 0,
      saturationFactors = (0, 0), startWithLeft = False, startWithSameFoot = False,
      terminalStep = False, mergePointRatios = (0, 0), switchOverSwingRatio = 0,
      lastStepSwitchTime = 0, isPauseActive = False, comHeight = 0, comHeightDelta = 0,
      leftZMPDelta = (0, 0), rightZMPDelta = (0, 0), lastStepDCMOffset = 0,
      unicycleController = DIRECT\<rparr>"

text \<open>Selectors for the two slow-down commands in the sequence of issued commands.\<close>

definition is_SetSlowWhenSidewaysFactor :: "gen_call \<Rightarrow> bool" where
  "is_SetSlowWhenSidewaysFactor c = (case c of SetSlowWhenSidewaysFactor v \<Rightarrow> True | _ \<Rightarrow> False)"

definition is_SetSlowWhenBackwardFactor :: "gen_call \<Rightarrow> bool" where
  "is_SetSlowWhenBackwardFactor c = (case c of SetSlowWhenBackwardFactor v \<Rightarrow> True | _ \<Rightarrow> False)"

lemmas example_defs =
  example_planner_def make_Impl_def stub_library_def zero_storage_def
  generateDummyUnicycleTrajectoryPlannerInput_def make_LinearTimeInvariantSystem_def
  make_RK4_def setSystemMatrices_def refuses_ReGenerate_def

lemmas advance_defs =
  advance_def advance_entry_def replan_def set_new_reference_def set_dcm_initial_state_def regenerate_def
  invoke_def publish_def pull_generator_output_def com_loop_entry_def pull_com_height_def commit_def
  com_loop.simps com_step_def height_loop.simps height_step_def resize_def
  setState_def setControlInput_def lti_dynamics_def lti_rhs_def oneStepIntegration_def rk4_step_def
  Let_def

lemmas initialize_defs =
  initialize_def run_def initialize_statements_def parse_statements_def configure_statements_def
  comSystem_statements_def generateFirstTrajectory_def statement_defs
  setUnicycleControllerFromString_def
  setDynamicalSystem_def setIntegrationStep_def setSystemMatrices_def setState_def
  declare_locals_def invoke_def Let_def

lemma example_running_advance:
  "\<exists>s'. advance (stub_library (\<lambda>c. True) 2) zero_storage (example_planner Running) =
          Inr (True, [], s')
      \<and> length (dcm_position (dcmTrajectory (output s'))) = 2"
  by (simp add: example_defs advance_defs numeral_2_eq_2)

definition example_model :: "string list \<Rightarrow> Model" where
  "example_model frames =
     \<lparr>loadRobotModel = True,
      getFrameIndex = (\<lambda>name. if name \<in> set frames then int (length (takeWhile (\<lambda>f. f \<noteq> name) frames))
                               else FRAME_INVALID_INDEX)\<rparr>"

definition stub_getContactList :: "(string \<Rightarrow> bool) \<Rightarrow> (nanoseconds \<times> nat) getContactList" where
  "stub_getContactList builds t h inContact footsteps frameIndex name =
     (builds name, (t, length footsteps))"

lemma example_initialize:
  "\<exists>s1. initialize (stub_library (\<lambda>c. True) 1) zero_locals (Some example_handler) (make_Impl ()) =
          (True, [], s1)"
  by (simp add: initialize_defs example_handler_def zero_locals_def stub_library_def make_Impl_def)

lemma example_initialize_slow_down_commands:
  "\<exists>s1. initialize (stub_library (\<lambda>c. True) 1) zero_locals (Some example_handler) (make_Impl ()) =
          (True, [], s1)
      \<and> filter is_SetSlowWhenSidewaysFactor (issued (generator s1)) =
          [SetSlowWhenSidewaysFactor 0.4]
      \<and> filter is_SetSlowWhenBackwardFactor (issued (generator s1)) =
          [SetSlowWhenBackwardFactor 0.4]"
  by (simp add: initialize_defs example_handler_def zero_locals_def stub_library_def make_Impl_def
        is_SetSlowWhenSidewaysFactor_def is_SetSlowWhenBackwardFactor_def)

section \<open>Loop invariants and frame lemmas\<close>

lemma com_step_lengths:
  assumes "com_step i c = Inr c'"
  shows "length (com_position (comTrajectory (output (snd (snd c'))))) =
           length (com_position (comTrajectory (output (snd (snd c)))))
       \<and> length (com_velocity (comTrajectory (output (snd (snd c'))))) =
           length (com_velocity (comTrajectory (output (snd (snd c)))))
       \<and> length (com_acceleration (comTrajectory (output (snd (snd c'))))) =
           length (com_acceleration (comTrajectory (output (snd (snd c)))))"
  using assms
  by (auto simp: com_step_def Let_def split: prod.splits if_splits option.splits)

lemma com_step_frame:
  assumes "com_step i c = Inr c'"
  shows "state (snd (snd c')) = state (snd (snd c))
       \<and> generator (snd (snd c')) = generator (snd (snd c))
       \<and> impl_initTime (snd (snd c')) = impl_initTime (snd (snd c))
       \<and> parameters (snd (snd c')) = parameters (snd (snd c))
       \<and> input (snd (snd c')) = input (snd (snd c))
       \<and> contactStatus (output (snd (snd c'))) = contactStatus (output (snd (snd c)))
       \<and> steps (output (snd (snd c'))) = steps (output (snd (snd c)))"
  using assms
  by (auto simp: com_step_def Let_def split: prod.splits if_splits option.splits)


lemma com_loop_preserves:
  assumes step: "\<And>i c c'. com_step i c = Inr c' \<Longrightarrow> f c' = f c"
  shows "com_loop i c = Inr c' \<Longrightarrow> f c' = f c"
proof (induction i c rule: com_loop.induct)
  case (1 i c)
  show ?case
  proof (cases "i < length (dcm_position (dcmTrajectory (output (snd (snd c)))))")
    case False
    with "1.prems" show ?thesis by (simp add: com_loop.simps)
  next
    case True
    with "1.prems" obtain c1 where c1: "com_step i c = Inr c1" and rest: "com_loop (Suc i) c1 = Inr c'"
      by (subst (asm) com_loop.simps) (auto split: sum.splits)
    from "1.IH" [OF True c1 rest] step [OF c1] show ?thesis by simp
  qed
qed

lemma height_loop_preserves:
  assumes step: "\<And>i s s'. height_step i s = Inr s' \<Longrightarrow> f s' = f s"
  shows "height_loop i s = Inr s' \<Longrightarrow> f s' = f s"
proof (induction i s rule: height_loop.induct)
  case (1 i s)
  show ?case
  proof (cases "i < length (com_position (comTrajectory (output s)))")
    case False
    with "1.prems" show ?thesis by (simp add: height_loop.simps)
  next
    case True
    with "1.prems" obtain s1 where s1: "height_step i s = Inr s1" and rest: "height_loop (Suc i) s1 = Inr s'"
      by (subst (asm) height_loop.simps) (auto split: sum.splits)
    from "1.IH" [OF True s1 rest] step [OF s1] show ?thesis by simp
  qed
qed

definition sample_counts :: "'g Impl \<Rightarrow> nat \<times> nat \<times> nat" where
  "sample_counts s =
     (length (com_position (comTrajectory (output s))),
      length (com_velocity (comTrajectory (output s))),
      length (com_acceleration (comTrajectory (output s))))"

lemma com_loop_sample_counts:
  "com_loop i c = Inr c' \<Longrightarrow> sample_counts (snd (snd c')) = sample_counts (snd (snd c))"
  by (rule com_loop_preserves [where f = "\<lambda>c. sample_counts (snd (snd c))"])
     (auto simp: sample_counts_def dest: com_step_lengths)

lemma com_loop_dcmTrajectory:
  "com_loop i c = Inr c' \<Longrightarrow>
     dcmTrajectory (output (snd (snd c'))) = dcmTrajectory (output (snd (snd c)))"
  by (rule com_loop_preserves [where f = "\<lambda>c. dcmTrajectory (output (snd (snd c)))"])
     (rule com_step_dcmTrajectory)

lemma height_step_sample_counts:
  "height_step i s = Inr s' \<Longrightarrow> sample_counts s' = sample_counts s"
  by (auto simp: height_step_def sample_counts_def Let_def split: if_splits)

lemma height_step_dcmTrajectory:
  "height_step i s = Inr s' \<Longrightarrow> dcmTrajectory (output s') = dcmTrajectory (output s)"
  by (auto simp: height_step_def Let_def split: if_splits)

lemma height_loop_sample_counts:
  "height_loop i s = Inr s' \<Longrightarrow> sample_counts s' = sample_counts s"
  by (rule height_loop_preserves [where f = sample_counts]) (rule height_step_sample_counts)

lemma height_loop_dcmTrajectory:
  "height_loop i s = Inr s' \<Longrightarrow> dcmTrajectory (output s') = dcmTrajectory (output s)"
  by (rule height_loop_preserves [where f = "\<lambda>s. dcmTrajectory (output s)"])
     (rule height_step_dcmTrajectory)

lemma length_resize: "length (resize n a xs) = n"
  by (simp add: resize_def)

lemma publish_sample_counts:
  assumes "publish L ind s = Inr s'"
  shows "dcm_position (dcmTrajectory (output s')) = getDCMPosition L (internal (generator s))
       \<and> sample_counts s' =
           (length (getDCMPosition L (internal (generator s))),
            length (getDCMPosition L (internal (generator s))),
            length (getDCMPosition L (internal (generator s))))"
proof -
  let ?n = "length (getDCMPosition L (internal (generator s)))"
  let ?c0 = "com_loop_entry ind (pull_generator_output L s)"
  from assms obtain c1 s3 where
    l1: "com_loop 0 ?c0 = Inr c1"
    and l2: "height_loop 0 (pull_com_height L (snd (snd c1))) = Inr s3"
    and s': "s' = commit L s3"
    by (auto simp: publish_def split: sum.splits)
  have c0: "dcm_position (dcmTrajectory (output (snd (snd ?c0)))) = getDCMPosition L (internal (generator s))"
    and n0: "sample_counts (snd (snd ?c0)) = (?n, ?n, ?n)"
    by (simp_all add: com_loop_entry_def pull_generator_output_def Let_def sample_counts_def
          length_resize)
  from com_loop_sample_counts [OF l1] com_loop_dcmTrajectory [OF l1] c0 n0
  have "dcm_position (dcmTrajectory (output (pull_com_height L (snd (snd c1))))) =
          getDCMPosition L (internal (generator s))"
    and "sample_counts (pull_com_height L (snd (snd c1))) = (?n, ?n, ?n)"
    by (simp_all add: pull_com_height_def sample_counts_def Let_def)
  with height_loop_sample_counts [OF l2] height_loop_dcmTrajectory [OF l2] s'
  show ?thesis by (simp add: sample_counts_def commit_def)
qed


lemma com_loop_frame:
  "com_loop i c = Inr c' \<Longrightarrow>
     (state (snd (snd c')), generator (snd (snd c')), impl_initTime (snd (snd c'))) =
     (state (snd (snd c)), generator (snd (snd c)), impl_initTime (snd (snd c)))"
  by (rule com_loop_preserves
        [where f = "\<lambda>c. (state (snd (snd c)), generator (snd (snd c)), impl_initTime (snd (snd c)))"])
     (auto dest: com_step_frame)

lemma height_step_frame:
  "height_step i s = Inr s' \<Longrightarrow>
     (state s', generator s', impl_initTime s') = (state s, generator s, impl_initTime s)"
  by (auto simp: height_step_def Let_def split: if_splits)

lemma height_loop_frame:
  "height_loop i s = Inr s' \<Longrightarrow>
     (state s', generator s', impl_initTime s') = (state s, generator s, impl_initTime s)"
  by (rule height_loop_preserves [where f = "\<lambda>s. (state s, generator s, impl_initTime s)"])
     (rule height_step_frame)

lemma publish_frame:
  assumes "publish L ind s = Inr s'"
  shows "state s' = Running
       \<and> generator s' = snd (invoke L AddCoMHeightTrajectoryGenerator (generator s))
       \<and> impl_initTime s' = impl_initTime s"
proof -
  from assms obtain c1 s3 where
    l1: "com_loop 0 (com_loop_entry ind (pull_generator_output L s)) = Inr c1"
    and l2: "height_loop 0 (pull_com_height L (snd (snd c1))) = Inr s3"
    and s': "s' = commit L s3"
    by (auto simp: publish_def split: sum.splits)
  from com_loop_frame [OF l1] height_loop_frame [OF l2] s'
  show ?thesis
    by (simp add: commit_def pull_com_height_def com_loop_entry_def pull_generator_output_def Let_def)
qed

lemma replan_frame:
  assumes "replan L ind s = Inr (r, s')"
  shows "output s' = output s \<and> state s' = state s \<and> impl_initTime s' = impl_initTime s
       \<and> input s' = input s \<and> parameters s' = parameters s"
  using assms
  by (auto simp: replan_def set_new_reference_def set_dcm_initial_state_def regenerate_def Let_def
           split: if_splits)

lemma replan_issued:
  assumes "replan L ind s = Inr (r, s')"
  shows "\<exists>rest. issued (generator s') =
           issued (generator s)
             @ [ClearPersonFollowingDesiredTrajectory,
                AddPersonFollowingDesiredTrajectoryPoint (endTime s)
                  (desiredPointInAbsoluteFrame ind (parameters s) (input s))]
             @ rest"
  using assms
  by (auto simp: replan_def set_new_reference_def set_dcm_initial_state_def regenerate_def
                 invoke_def Let_def
           split: if_splits)

lemma replan_accepted:
  assumes "replan L ind s = Inr (None, s')"
  shows "fst (set_new_reference L ind s)
       \<and> fst (set_dcm_initial_state L (snd (set_new_reference L ind s)))
       \<and> fst (regenerate L (snd (set_dcm_initial_state L (snd (set_new_reference L ind s)))))"
  using assms by (simp add: replan_def Let_def split: if_splits)

lemma advance_entry_simps:
  "state (advance_entry L s) = state s"
  "output (advance_entry L s) = output s"
  "input (advance_entry L s) = input s"
  "parameters (advance_entry L s) = parameters s"
  "comSystem (advance_entry L s) = comSystem s"
  "impl_initTime (advance_entry L s) = initTime (input s)"
  "issued (generator (advance_entry L s)) = issued (generator s) @ [AddDCMTrajectoryGenerator]"
  by (simp_all add: advance_entry_def invoke_def Let_def)

subsection \<open>The statements of initialize\<close>

lemma run_Nil: "run [] fr = fr"
  by (simp add: run_def)

lemma run_Cons: "run (st # sts) fr = run sts (st fr)"
  by (simp add: run_def)

lemma run_append: "run (a @ b) fr = run b (run a fr)"
  by (simp add: run_def)

lemma run_ok_mono:
  assumes "\<And>st fr. st \<in> set sts \<Longrightarrow> ok (st fr) \<Longrightarrow> ok fr"
  shows "ok (run sts fr) \<Longrightarrow> ok fr"
  using assms
proof (induction sts arbitrary: fr)
  case Nil
  then show ?case by (simp add: run_Nil)
next
  case (Cons st sts)
  from Cons.prems(1) have "ok (run sts (st fr))" by (simp add: run_Cons)
  moreover have "\<And>st' fr'. st' \<in> set sts \<Longrightarrow> ok (st' fr') \<Longrightarrow> ok fr'"
    by (metis Cons.prems(2) list.set_intros(2))
  ultimately have "ok (st fr)" by (rule Cons.IH)
  then show ?case by (metis Cons.prems(2) list.set_intros(1))
qed

lemma run_preserves:
  assumes "\<And>st fr. st \<in> set sts \<Longrightarrow> f (st fr) = f fr"
  shows "f (run sts fr) = f fr"
  using assms
proof (induction sts arbitrary: fr)
  case Nil
  then show ?case by (simp add: run_Nil)
next
  case (Cons st sts)
  have "\<And>st' fr'. st' \<in> set sts \<Longrightarrow> f (st' fr') = f fr'"
    using Cons.prems by simp
  then have "f (run sts (st fr)) = f (st fr)" by (rule Cons.IH)
  then show ?case using Cons.prems by (simp add: run_Cons)
qed

lemma run_keeps:
  assumes "\<And>st fr. st \<in> set sts \<Longrightarrow> P fr \<Longrightarrow> P (st fr)"
  shows "P fr \<Longrightarrow> P (run sts fr)"
  using assms
proof (induction sts arbitrary: fr)
  case Nil
  then show ?case by (simp add: run_Nil)
next
  case (Cons st sts)
  have "\<And>st' fr'. st' \<in> set sts \<Longrightarrow> P fr' \<Longrightarrow> P (st' fr')"
    using Cons.prems(2) by simp
  moreover have "P (st fr)" using Cons.prems by simp
  ultimately have "P (run sts (st fr))" using Cons.IH by blast
  then show ?case by (simp add: run_Cons)
qed

lemma run_establishes:
  assumes k: "k < length sts"
    and mono: "\<And>st fr. st \<in> set (drop (Suc k) sts) \<Longrightarrow> ok (st fr) \<Longrightarrow> ok fr"
    and est: "\<And>fr. ok ((sts ! k) fr) \<Longrightarrow> P ((sts ! k) fr)"
    and keep: "\<And>st fr. st \<in> set (drop (Suc k) sts) \<Longrightarrow> P fr \<Longrightarrow> P (st fr)"
  shows "ok (run sts fr) \<Longrightarrow> P (run sts fr)"
proof -
  assume fin: "ok (run sts fr)"
  from k have split: "sts = take k sts @ (sts ! k) # drop (Suc k) sts"
    by (rule id_take_nth_drop)
  let ?mid = "(sts ! k) (run (take k sts) fr)"
  have eq: "run sts fr = run (drop (Suc k) sts) ?mid"
    by (subst split) (simp add: run_append run_Cons)
  with fin have "ok (run (drop (Suc k) sts) ?mid)" by simp
  then have "ok ?mid" by (rule run_ok_mono [rotated]) (rule mono)
  then have "P ?mid" by (rule est)
  then have "P (run (drop (Suc k) sts) ?mid)" by (rule run_keeps [rotated]) (rule keep)
  with eq show ?thesis by simp
qed

lemma parse_comHeight:
  fixes fr :: "'g initialize_frame"
  assumes "ok (run (parse_statements h) fr)"
  shows "comHeight (loc (run (parse_statements h) fr)) =
           (case getParameter_double h ''comHeight'' of Some v \<Rightarrow> v | None \<Rightarrow> 0.70)"
  using assms
proof (rule run_establishes [where k = 34, rotated -1])
  show "34 < length (parse_statements h)" by (simp add: parse_statements_def)
next
  fix st :: "'g statement" and fr :: "'g initialize_frame"
  assume "st \<in> set (drop (Suc 34) (parse_statements h))" and "ok (st fr)"
  then show "ok fr"
    by (auto simp: parse_statements_def statement_defs split: if_splits)
next
  fix fr :: "'g initialize_frame"
  assume "ok ((parse_statements h ! 34) fr)"
  then show "comHeight (loc ((parse_statements h ! 34) fr)) =
           (case getParameter_double h ''comHeight'' of Some v \<Rightarrow> v | None \<Rightarrow> 0.70)"
    by (simp add: parse_statements_def statement_defs split: if_splits option.splits)
next
  fix st :: "'g statement" and fr :: "'g initialize_frame"
  assume "st \<in> set (drop (Suc 34) (parse_statements h))"
    and "comHeight (loc fr) =
           (case getParameter_double h ''comHeight'' of Some v \<Rightarrow> v | None \<Rightarrow> 0.70)"
  then show "comHeight (loc (st fr)) =
           (case getParameter_double h ''comHeight'' of Some v \<Rightarrow> v | None \<Rightarrow> 0.70)"
    by (auto simp: parse_statements_def statement_defs split: if_splits option.splits)
qed

lemma configure_comHeight:
  "comHeight (loc (run (configure_statements L) fr)) = comHeight (loc fr)"
  by (rule run_preserves [where f = "\<lambda>fr. comHeight (loc fr)"])
     (auto simp: configure_statements_def statement_defs Let_def)

lemma configure_ok_mono: "ok (run (configure_statements L) fr) \<Longrightarrow> ok fr"
  by (rule run_ok_mono [rotated], assumption)
     (auto simp: configure_statements_def statement_defs Let_def split: if_splits)

lemma comSystem_statements_loc: "loc (run comSystem_statements fr) = loc fr"
  by (rule run_preserves [where f = loc])
     (auto simp: comSystem_statements_def statement_defs Let_def)

lemma comSystem_statements_ok_mono: "ok (run comSystem_statements fr) \<Longrightarrow> ok fr"
  by (rule run_ok_mono [rotated], assumption)
     (auto simp: comSystem_statements_def statement_defs Let_def split: if_splits)

lemma comSystem_statements_matrices:
  assumes "ok (run comSystem_statements fr)"
  shows "matrices (dynamics (comSystem (impl (run comSystem_statements fr)))) =
           Some (matrix_A (loc fr), matrix_B (loc fr))"
  using assms
  by (simp add: comSystem_statements_def run_def statement_defs setSystemMatrices_def
        setState_def setDynamicalSystem_def setIntegrationStep_def Let_def split: if_splits)

lemma generateFirstTrajectory_frame:
  "comSystem (snd (snd (generateFirstTrajectory L s))) = comSystem s
   \<and> state (snd (snd (generateFirstTrajectory L s))) = state s
   \<and> output (snd (snd (generateFirstTrajectory L s))) = output s"
  by (simp add: generateFirstTrajectory_def Let_def)

lemma initialize_matrices:
  assumes "initialize L l0 (Some h) s = (True, msgs, s')"
  shows "matrices (dynamics (comSystem s')) =
           Some (mat4_scale
                   (- sqrt (StandardAccelerationOfGravitation
                            / (case getParameter_double h ''comHeight'' of
                                 Some v \<Rightarrow> v | None \<Rightarrow> 0.70)))
                   mat4_Identity,
                 mat4_scale
                   (sqrt (StandardAccelerationOfGravitation
                          / (case getParameter_double h ''comHeight'' of
                               Some v \<Rightarrow> v | None \<Rightarrow> 0.70)))
                   mat4_Identity)"
proof -
  let ?fr0 = "\<lparr>ok = True, logged = [], loc = declare_locals l0, impl = s\<rparr>"
  let ?fr1 = "run (parse_statements h) ?fr0"
  let ?fr2 = "run (configure_statements L) ?fr1"
  let ?fr3 = "run comSystem_statements ?fr2"
  let ?fr4 = "and_generateFirstTrajectory L ?fr3"
  have run4: "run (initialize_statements L h) ?fr0 = ?fr4"
    by (simp add: initialize_statements_def run_append run_Cons run_Nil)
  from assms have ok4: "ok ?fr4" and s': "s' = (impl ?fr4)\<lparr>state := Initialized\<rparr>"
    by (simp_all add: initialize_def run4 Let_def split: if_splits)
  from ok4 have ok3: "ok ?fr3" by (simp add: and_generateFirstTrajectory_def split: if_splits)
  then have ok2: "ok ?fr2" by (rule comSystem_statements_ok_mono)
  then have ok1: "ok ?fr1" by (rule configure_ok_mono)
  from parse_comHeight [OF ok1] have "comHeight (loc ?fr2) =
      (case getParameter_double h ''comHeight'' of Some v \<Rightarrow> v | None \<Rightarrow> 0.70)"
    by (simp add: configure_comHeight)
  with comSystem_statements_matrices [OF ok3]
  have "matrices (dynamics (comSystem (impl ?fr3))) =
          Some (mat4_scale
                   (- sqrt (StandardAccelerationOfGravitation
                            / (case getParameter_double h ''comHeight'' of
                                 Some v \<Rightarrow> v | None \<Rightarrow> 0.70)))
                   mat4_Identity,
                 mat4_scale
                   (sqrt (StandardAccelerationOfGravitation
                          / (case getParameter_double h ''comHeight'' of
                               Some v \<Rightarrow> v | None \<Rightarrow> 0.70)))
                   mat4_Identity)"
    by (simp add: matrix_A_def matrix_B_def omega_def mat4_neg_def mat4_scale_def vec4_scale_def
          mat4_Identity_def)
  moreover have "comSystem (impl ?fr4) = comSystem (impl ?fr3)"
    using ok3 by (simp add: and_generateFirstTrajectory_def generateFirstTrajectory_frame Let_def)
  ultimately show ?thesis by (simp add: s')
qed

lemma initialize_state:
  assumes "initialize L l0 handler s = (True, msgs, s')"
  shows "state s' = Initialized \<and> (\<exists>h. handler = Some h)"
  using assms by (auto simp: initialize_def Let_def split: option.splits if_splits)

lemma near_3_74:
  fixes r :: real
  assumes "3.735 < r" and "r < 3.745"
  shows "\<bar>r - 3.74\<bar> < 0.005"
  using assms by (simp add: abs_if)

lemma sqrt_gravity_over_height:
  "\<bar>sqrt (StandardAccelerationOfGravitation / 0.70) - 3.74\<bar> < 0.005"
proof -
  have "(3.735 :: real)\<^sup>2 < 9.81 / 0.70" by (simp add: power2_eq_square)
  then have lo: "3.735 < sqrt (9.81 / 0.70)" by (rule real_less_rsqrt)
  have "(9.81 / 0.70 :: real) < 3.745\<^sup>2" by (simp add: power2_eq_square)
  then have hi: "sqrt (9.81 / 0.70) < 3.745" by (intro real_less_lsqrt) simp_all
  from lo hi show ?thesis
    unfolding StandardAccelerationOfGravitation_def by (rule near_3_74)
qed

lemma scaled_identity_within:
  fixes w :: real
  assumes "\<bar>w - 3.74\<bar> < 0.005"
  shows "mat4_within 0.005 (mat4_scale (- w) mat4_Identity) (mat4_scale (- 3.74) mat4_Identity)"
  using assms
  by (simp add: mat4_within_def mat4_entries_def mat4_scale_def vec4_scale_def
        mat4_Identity_def abs_if split: if_splits)

subsection \<open>The loops of advance return\<close>

text \<open>
  What the two loops need in order to run to their end without a fault: the system has its
  matrices, the generator reports at least as many DCM velocities and CoM heights as DCM
  positions, and the CoM sequences have been resized.
\<close>

definition trajectories_aligned :: "'g UnicycleGeneratorLibrary \<Rightarrow> 'g \<Rightarrow> bool" where
  "trajectories_aligned L g =
     (let n = length (getDCMPosition L g);
          g1 = snd (command L AddCoMHeightTrajectoryGenerator g)
      in n \<le> length (getDCMVelocity L g)
         \<and> n \<le> length (getCoMHeightTrajectory L g1)
         \<and> n \<le> length (getCoMHeightVelocity L g1)
         \<and> n \<le> length (getCoMHeightAccelerationProfile L g1))"

definition com_loop_ready :: "'g Impl \<Rightarrow> bool" where
  "com_loop_ready s =
     (let n = length (dcm_position (dcmTrajectory (output s)))
      in matrices (dynamics (comSystem s)) \<noteq> None
         \<and> n \<le> length (dcm_velocity (dcmTrajectory (output s)))
         \<and> sample_counts s = (n, n, n))"

definition height_loop_ready :: "'g Impl \<Rightarrow> bool" where
  "height_loop_ready s =
     (let n = length (com_position (comTrajectory (output s)))
      in sample_counts s = (n, n, n)
         \<and> n \<le> length (height_position (comHeightTrajectory s))
         \<and> n \<le> length (height_velocity (comHeightTrajectory s))
         \<and> n \<le> length (height_acceleration (comHeightTrajectory s)))"

lemma com_step_total:
  assumes "com_loop_ready (snd (snd c))"
    and "i < length (dcm_position (dcmTrajectory (output (snd (snd c)))))"
  shows "\<exists>c'. com_step i c = Inr c' \<and> com_loop_ready (snd (snd c'))"
proof -
  obtain x t s where c: "c = (x, t, s)" by (cases c)
  from assms c obtain AB where AB: "matrices (dynamics (comSystem s)) = Some AB"
    by (auto simp: com_loop_ready_def Let_def)
  from assms c AB show ?thesis
    by (simp add: com_step_def com_loop_ready_def sample_counts_def Let_def lti_dynamics_def
          setControlInput_def setState_def oneStepIntegration_def
          del: split_paired_Ex split_paired_All)
qed

lemma com_loop_total:
  "com_loop_ready (snd (snd c)) \<Longrightarrow> \<exists>c'. com_loop i c = Inr c'"
proof (induction i c rule: com_loop.induct)
  case (1 i c)
  show ?case
  proof (cases "i < length (dcm_position (dcmTrajectory (output (snd (snd c)))))")
    case False
    then show ?thesis by (subst com_loop.simps) (simp del: split_paired_Ex)
  next
    case True
    from com_step_total [OF "1.prems" True] obtain c1 where
      c1: "com_step i c = Inr c1" and r1: "com_loop_ready (snd (snd c1))" by blast
    from "1.IH" [OF True c1 r1] obtain c' where "com_loop (Suc i) c1 = Inr c'" by blast
    with True c1 show ?thesis by (subst com_loop.simps) (simp del: split_paired_Ex)
  qed
qed

lemma height_step_total:
  assumes "height_loop_ready s" and "i < length (com_position (comTrajectory (output s)))"
  shows "\<exists>s'. height_step i s = Inr s' \<and> height_loop_ready s'"
  using assms
  by (auto simp: height_step_def height_loop_ready_def sample_counts_def Let_def)

lemma height_loop_total:
  "height_loop_ready s \<Longrightarrow> \<exists>s'. height_loop i s = Inr s'"
proof (induction i s rule: height_loop.induct)
  case (1 i s)
  show ?case
  proof (cases "i < length (com_position (comTrajectory (output s)))")
    case False
    then show ?thesis by (simp add: height_loop.simps)
  next
    case True
    from height_step_total [OF "1.prems" True] obtain s1 where
      s1: "height_step i s = Inr s1" and r1: "height_loop_ready s1" by blast
    from "1.IH" [OF True s1 r1] obtain s' where "height_loop (Suc i) s1 = Inr s'" by blast
    with True s1 show ?thesis by (subst height_loop.simps) simp
  qed
qed

lemma com_step_heights:
  "com_step i c = Inr c' \<Longrightarrow>
     (generator (snd (snd c')), sample_counts (snd (snd c')),
      length (com_position (comTrajectory (output (snd (snd c'))))))
     = (generator (snd (snd c)), sample_counts (snd (snd c)),
        length (com_position (comTrajectory (output (snd (snd c))))))"
  by (auto simp: sample_counts_def dest: com_step_lengths com_step_frame)

lemma publish_total:
  assumes m: "matrices (dynamics (comSystem s)) \<noteq> None"
    and a: "trajectories_aligned L (internal (generator s))"
  shows "\<exists>s'. publish L ind s = Inr s'"
proof -
  let ?n = "length (getDCMPosition L (internal (generator s)))"
  let ?c0 = "com_loop_entry ind (pull_generator_output L s)"
  from m a have "com_loop_ready (snd (snd ?c0))"
    by (simp add: com_loop_ready_def com_loop_entry_def pull_generator_output_def Let_def
          sample_counts_def length_resize setState_def trajectories_aligned_def)
  then obtain c1 where l1: "com_loop 0 ?c0 = Inr c1" using com_loop_total by blast
  have "(generator (snd (snd c1)), sample_counts (snd (snd c1)),
         length (com_position (comTrajectory (output (snd (snd c1))))))
        = (generator (snd (snd ?c0)), sample_counts (snd (snd ?c0)),
           length (com_position (comTrajectory (output (snd (snd ?c0))))))"
    by (rule com_loop_preserves
          [where f = "\<lambda>c. (generator (snd (snd c)), sample_counts (snd (snd c)),
                           length (com_position (comTrajectory (output (snd (snd c))))))",
           OF _ l1])
       (rule com_step_heights)
  then have "generator (snd (snd c1)) = generator s"
    and "sample_counts (snd (snd c1)) = (?n, ?n, ?n)"
    and "length (com_position (comTrajectory (output (snd (snd c1))))) = ?n"
    by (simp_all add: com_loop_entry_def pull_generator_output_def Let_def sample_counts_def
          length_resize)
  with a have "height_loop_ready (pull_com_height L (snd (snd c1)))"
    by (simp add: height_loop_ready_def pull_com_height_def Let_def sample_counts_def
          trajectories_aligned_def invoke_def)
  then obtain s3 where "height_loop 0 (pull_com_height L (snd (snd c1))) = Inr s3"
    using height_loop_total by blast
  with l1 show ?thesis by (simp add: publish_def)
qed

subsection \<open>What advance leaves\<close>

text \<open>The contact status, footsteps and DCM trajectory of an output are the ones the library
  reports for the generator's internal state \<open>g\<close>.\<close>

definition pulled_from :: "'g UnicycleGeneratorLibrary \<Rightarrow> 'g \<Rightarrow> UnicycleTrajectoryPlannerOutput \<Rightarrow> bool" where
  "pulled_from L g out =
     (contactStatus out =
        \<lparr>leftFootInContact = fst (getFeetStandingPeriods L g),
         rightFootInContact = snd (getFeetStandingPeriods L g),
         UsedLeftAsFixed = getWhenUseLeftAsFixed L g\<rparr>
      \<and> steps out = \<lparr>leftSteps = getLeftSteps L g, rightSteps = getRightSteps L g\<rparr>
      \<and> dcmTrajectory out =
          \<lparr>dcm_position = getDCMPosition L g, dcm_velocity = getDCMVelocity L g\<rparr>)"

lemma com_step_pulled:
  "com_step i c = Inr c' \<Longrightarrow>
     pulled_from L g (output (snd (snd c'))) = pulled_from L g (output (snd (snd c)))"
  by (simp add: pulled_from_def com_step_frame com_step_dcmTrajectory)

lemma height_step_pulled:
  "height_step i s = Inr s' \<Longrightarrow> pulled_from L g (output s') = pulled_from L g (output s)"
  by (auto simp: height_step_def pulled_from_def Let_def split: if_splits)

lemma publish_pulled:
  assumes "publish L ind s = Inr s'"
  shows "pulled_from L (internal (generator s)) (output s')"
proof -
  let ?g = "internal (generator s)"
  from assms obtain c1 s3 where
    l1: "com_loop 0 (com_loop_entry ind (pull_generator_output L s)) = Inr c1"
    and l2: "height_loop 0 (pull_com_height L (snd (snd c1))) = Inr s3"
    and s': "s' = commit L s3"
    by (auto simp: publish_def split: sum.splits)
  have "pulled_from L ?g (output (snd (snd (com_loop_entry ind (pull_generator_output L s)))))"
    by (simp add: pulled_from_def com_loop_entry_def pull_generator_output_def Let_def)
  with com_loop_preserves [where f = "\<lambda>c. pulled_from L ?g (output (snd (snd c)))", OF _ l1]
  have "pulled_from L ?g (output (snd (snd c1)))"
    by (simp add: com_step_pulled)
  then have "pulled_from L ?g (output (pull_com_height L (snd (snd c1))))"
    by (simp add: pulled_from_def pull_com_height_def Let_def)
  with height_loop_preserves [where f = "\<lambda>s. pulled_from L ?g (output s)", OF _ l2]
  have "pulled_from L ?g (output s3)"
    by (simp add: height_step_pulled)
  with s' show ?thesis by (simp add: pulled_from_def commit_def)
qed

lemma advance_Initialized:
  assumes "state s = Initialized" and "advance L ind s = Inr (r, msgs, s')"
  shows "r \<and> msgs = [] \<and> state s' = Running
       \<and> issued (generator s') =
           issued (generator s) @ [AddDCMTrajectoryGenerator, AddCoMHeightTrajectoryGenerator]
       \<and> pulled_from L (internal (generator (advance_entry L s))) (output s')"
proof -
  from assms have p: "publish L ind (advance_entry L s) = Inr s'" and r: "r" "msgs = []"
    by (auto simp: advance_def Let_def advance_entry_simps split: sum.splits)
  from publish_frame [OF p] publish_pulled [OF p] r show ?thesis
    by (simp add: advance_entry_simps invoke_def Let_def)
qed

lemma advance_Initialized_total:
  assumes "state s = Initialized" and "matrices (dynamics (comSystem s)) \<noteq> None"
    and "trajectories_aligned L (internal (generator (advance_entry L s)))"
  shows "\<exists>s'. advance L ind s = Inr (True, [], s')"
proof -
  from assms(2) have "matrices (dynamics (comSystem (advance_entry L s))) \<noteq> None"
    by (simp add: advance_entry_simps)
  from publish_total [OF this assms(3)] obtain s' where
    "publish L ind (advance_entry L s) = Inr s'" by blast
  with assms(1) show ?thesis by (simp add: advance_def Let_def advance_entry_simps)
qed

lemma advance_Running:
  assumes "state s = Running" and "advance L ind s = Inr (r, msgs, s')"
  shows "state s' = Running
       \<and> (\<exists>rest. issued (generator s') =
             issued (generator s)
               @ [AddDCMTrajectoryGenerator, ClearPersonFollowingDesiredTrajectory,
                  AddPersonFollowingDesiredTrajectoryPoint (endTime s)
                    (desiredPointInAbsoluteFrame ind (parameters s) (input s))]
               @ rest)"
proof -
  let ?s0 = "advance_entry L s"
  from assms obtain e s1 where rp: "replan L ind ?s0 = Inr (e, s1)"
    and fin: "(e \<noteq> None \<and> s' = s1) \<or> (e = None \<and> publish L ind s1 = Inr s')"
    by (auto simp: advance_def Let_def advance_entry_simps
             split: sum.splits prod.splits option.splits)
  from replan_issued [OF rp] obtain rest where
    i1: "issued (generator s1) =
           issued (generator s)
             @ [AddDCMTrajectoryGenerator, ClearPersonFollowingDesiredTrajectory,
                AddPersonFollowingDesiredTrajectoryPoint (endTime s)
                  (desiredPointInAbsoluteFrame ind (parameters s) (input s))]
             @ rest"
    by (auto simp: advance_entry_simps endTime_def)
  from replan_frame [OF rp] assms(1) have st1: "state s1 = Running"
    by (simp add: advance_entry_simps)
  from fin show ?thesis
  proof
    assume "e \<noteq> None \<and> s' = s1"
    with i1 st1 show ?thesis by blast
  next
    assume "e = None \<and> publish L ind s1 = Inr s'"
    then have p: "publish L ind s1 = Inr s'" by simp
    from publish_frame [OF p] i1
    have "state s' = Running"
      and "issued (generator s') =
             issued (generator s)
               @ [AddDCMTrajectoryGenerator, ClearPersonFollowingDesiredTrajectory,
                  AddPersonFollowingDesiredTrajectoryPoint (endTime s)
                    (desiredPointInAbsoluteFrame ind (parameters s) (input s))]
               @ (rest @ [AddCoMHeightTrajectoryGenerator])"
      by (simp_all add: invoke_def Let_def)
    then show ?thesis by blast
  qed
qed

subsection \<open>A full cycle on the example\<close>

lemma com_step_keeps:
  "com_step i c = Inr c' \<Longrightarrow>
     (input (snd (snd c')), parameters (snd (snd c')), matrices (dynamics (comSystem (snd (snd c')))))
     = (input (snd (snd c)), parameters (snd (snd c)), matrices (dynamics (comSystem (snd (snd c)))))"
  by (auto simp: com_step_def Let_def setControlInput_def setState_def oneStepIntegration_def
           split: prod.splits if_splits option.splits)

lemma height_step_keeps:
  "height_step i s = Inr s' \<Longrightarrow>
     (input s', parameters s', matrices (dynamics (comSystem s')))
     = (input s, parameters s, matrices (dynamics (comSystem s)))"
  by (auto simp: height_step_def Let_def split: if_splits)

lemma publish_keeps:
  assumes "publish L ind s = Inr s'"
  shows "input s' = input s \<and> parameters s' = parameters s
       \<and> matrices (dynamics (comSystem s')) = matrices (dynamics (comSystem s))"
proof -
  let ?f = "\<lambda>s. (input s, parameters s, matrices (dynamics (comSystem s)))"
  from assms obtain c1 s3 where
    l1: "com_loop 0 (com_loop_entry ind (pull_generator_output L s)) = Inr c1"
    and l2: "height_loop 0 (pull_com_height L (snd (snd c1))) = Inr s3"
    and s': "s' = commit L s3"
    by (auto simp: publish_def split: sum.splits)
  have "?f (snd (snd c1)) = ?f (snd (snd (com_loop_entry ind (pull_generator_output L s))))"
    by (rule com_loop_preserves [where f = "\<lambda>c. ?f (snd (snd c))", OF _ l1])
       (rule com_step_keeps)
  moreover have "?f s3 = ?f (pull_com_height L (snd (snd c1)))"
    by (rule height_loop_preserves [where f = ?f, OF _ l2]) (rule height_step_keeps)
  ultimately show ?thesis
    by (simp add: s' commit_def pull_com_height_def com_loop_entry_def pull_generator_output_def
          setState_def Let_def)
qed

lemma advance_Running_total:
  assumes "state s = Running" and "3 \<le> length (plannerInput (input s))"
    and "s0 = advance_entry L s"
    and "fst (set_new_reference L ind s0)"
    and "fst (set_dcm_initial_state L (snd (set_new_reference L ind s0)))"
    and "s1 = snd (set_dcm_initial_state L (snd (set_new_reference L ind s0)))"
    and "fst (regenerate L s1)"
    and "matrices (dynamics (comSystem s)) \<noteq> None"
    and "trajectories_aligned L (internal (generator (snd (regenerate L s1))))"
  shows "\<exists>s'. advance L ind s = Inr (True, [], s')"
proof -
  from assms(2-7) have rp: "replan L ind s0 = Inr (None, snd (regenerate L s1))"
    by (simp add: replan_def Let_def advance_entry_simps)
  from replan_frame [OF rp] assms(3,8)
  have "matrices (dynamics (comSystem (snd (regenerate L s1)))) \<noteq> None"
    by (simp add: regenerate_def set_dcm_initial_state_def set_new_reference_def Let_def
          assms(6) advance_entry_simps)
  from publish_total [OF this assms(9)] obtain s' where
    "publish L ind (snd (regenerate L s1)) = Inr s'" by blast
  with rp assms(1,3) show ?thesis by (simp add: advance_def Let_def advance_entry_simps)
qed

lemma example_lifecycle:
  "\<exists>s1 s2 s3.
     initialize (stub_library (\<lambda>c. True) 1) zero_locals (Some example_handler) (make_Impl ()) =
       (True, [], s1)
     \<and> advance (stub_library (\<lambda>c. True) 1) zero_storage
         (snd (snd (setInput (generateDummyUnicycleTrajectoryPlannerInput zero_storage) s1))) =
       Inr (True, [], s2)
     \<and> advance (stub_library (\<lambda>c. True) 1) zero_storage s2 = Inr (True, [], s3)"
proof -
  let ?L = "stub_library (\<lambda>c. True) 1"
  let ?inp = "generateDummyUnicycleTrajectoryPlannerInput zero_storage"
  from example_initialize obtain s1 where
    h1: "initialize ?L zero_locals (Some example_handler) (make_Impl ()) = (True, [], s1)"
    by blast
  let ?sI = "snd (snd (setInput ?inp s1))"
  from initialize_state [OF h1] have sI: "?sI = s1\<lparr>input := ?inp\<rparr>"
    by (simp add: setInput_def)
  from initialize_state [OF h1] sI have stI: "state ?sI = Initialized" by simp
  from initialize_matrices [OF h1] sI have mI: "matrices (dynamics (comSystem ?sI)) \<noteq> None"
    by simp
  have aligned: "trajectories_aligned ?L g" for g
    by (simp add: trajectories_aligned_def stub_library_def)
  from advance_Initialized_total [OF stI mI aligned] obtain s2 where
    h2: "advance ?L zero_storage ?sI = Inr (True, [], s2)" by blast
  then have p: "publish ?L zero_storage (advance_entry ?L ?sI) = Inr s2"
    using stI by (simp add: advance_def Let_def advance_entry_simps split: sum.splits)
  from publish_frame [OF p] have st2: "state s2 = Running" by simp
  from publish_keeps [OF p] sI mI
  have in2: "3 \<le> length (plannerInput (input s2))"
    and m2: "matrices (dynamics (comSystem s2)) \<noteq> None"
    by (simp_all add: advance_entry_simps generateDummyUnicycleTrajectoryPlannerInput_def)
  have acc: "fst (set_new_reference ?L zero_storage s)" "fst (set_dcm_initial_state ?L s)"
    "fst (regenerate ?L s)" for s
    by (simp_all add: set_new_reference_def set_dcm_initial_state_def regenerate_def invoke_def
          stub_library_def Let_def)
  from advance_Running_total [OF st2 in2 refl acc(1) acc(2) refl acc(3) m2 aligned]
  obtain s3 where "advance ?L zero_storage s2 = Inr (True, [], s3)" by blast
  with h1 h2 show ?thesis by blast
qed


section \<open>The claims\<close>

text \<open>
  Claim C1 says that component 0 of the relative desired point is the x command
  \<^verbatim>\<open>plannerInput(0)\<close> and component 1 the y command \<^verbatim>\<open>plannerInput(1)\<close>. The
  source assigns component 0 twice (lines 491 and 492) and component 1 never. For the
  command \<open>(1, 2, 0)\<close> the relative desired point has the y command 2 in component 0
  and in component 1 whatever the vector's storage held; with the dummy measured
  transform, stance width 0.2 and no reference offset, the waypoint in the absolute frame
  is \<open>(2, -0.2)\<close>, where the command as an offset in the unicycle frame gives
  \<open>(1, 1.8)\<close>.
\<close>

theorem desired_point_x_is_overwritten:
  "vec2_get (desiredPointInRelativeFrame ind
       ((generateDummyUnicycleTrajectoryPlannerInput ind)\<lparr>plannerInput := [1, 2, 0]\<rparr>)) 0 = 2
   \<and> vec2_get (desiredPointInRelativeFrame ind
       ((generateDummyUnicycleTrajectoryPlannerInput ind)\<lparr>plannerInput := [1, 2, 0]\<rparr>)) 0 \<noteq>
       plannerInput
         ((generateDummyUnicycleTrajectoryPlannerInput ind)\<lparr>plannerInput := [1, 2, 0]\<rparr>) ! 0
   \<and> vec2_get (desiredPointInRelativeFrame ind
       ((generateDummyUnicycleTrajectoryPlannerInput ind)\<lparr>plannerInput := [1, 2, 0]\<rparr>)) 1 =
       vec2_get (new_Vector2d ind) 1
   \<and> desiredPointInAbsoluteFrame zero_storage (parameters (example_planner Running))
       ((generateDummyUnicycleTrajectoryPlannerInput zero_storage)\<lparr>plannerInput := [1, 2, 0]\<rparr>) =
       (2, - 0.2)"
  by (simp add: desiredPointInRelativeFrame_def desiredPointInAbsoluteFrame_def vec2_set_def
        vec2_get_def vec2_add_def mat2_vec_def unicycleRotation_def unicyclePosition_def
        unicycleAngle_def correctLeft_def se3_x_def se3_y_def se3_yaw_def example_defs Let_def)

text \<open>
  Claim C2 says that the slow-when-sideways setting of the external planner receives the
  configured \<^verbatim>\<open>slowWhenSidewaysFactor\<close>. Line 326 passes the local
  \<^verbatim>\<open>slowWhenBackwardFactor\<close> instead. For a configuration with sideways factor 0.2 and
  backward factor 0.4, which \<^verbatim>\<open>initialize\<close> accepts, the one sideways command issued
  carries 0.4, as the one backward command does.
\<close>

theorem sideways_setting_receives_backward_factor:
  "getParameter_double example_handler ''slowWhenSidewaysFactor'' = Some 0.2
   \<and> getParameter_double example_handler ''slowWhenBackwardFactor'' = Some 0.4
   \<and> (\<exists>s1. initialize (stub_library (\<lambda>c. True) 1) zero_locals (Some example_handler)
              (make_Impl ()) = (True, [], s1)
        \<and> filter is_SetSlowWhenSidewaysFactor (issued (generator s1)) =
            [SetSlowWhenSidewaysFactor 0.4]
        \<and> filter is_SetSlowWhenBackwardFactor (issued (generator s1)) =
            [SetSlowWhenBackwardFactor 0.4])"
  using example_initialize_slow_down_commands by (simp add: example_handler_def)

text \<open>
  Claim C3. Take an \<^verbatim>\<open>advance\<close> in the \<open>Running\<close> state in which the external
  library refuses the new waypoint, or the DCM initial state, or the re-generation (each
  refusal read at the generator state in which the planner issues the call). If the call
  returns, it returns false, the output it leaves is the output it found, and the state is
  still \<open>Running\<close>; and it does return when the command has its three components.
\<close>

theorem replan_rejection_preserves_output:
  assumes "state s = Running"
    and "s0 = advance_entry L s"
    and "\<not> fst (set_new_reference L ind s0)
       \<or> \<not> fst (set_dcm_initial_state L (snd (set_new_reference L ind s0)))
       \<or> \<not> fst (regenerate L (snd (set_dcm_initial_state L (snd (set_new_reference L ind s0)))))"
  shows "(\<forall>r msgs s'. advance L ind s = Inr (r, msgs, s') \<longrightarrow>
            \<not> r \<and> output s' = output s \<and> state s' = Running)
       \<and> (3 \<le> length (plannerInput (input s)) \<longrightarrow>
            (\<exists>msgs s'. advance L ind s = Inr (False, msgs, s')))"
proof (intro conjI allI impI)
  fix r msgs s'
  assume ret: "advance L ind s = Inr (r, msgs, s')"
  with assms(1,2) obtain e s1 where rp: "replan L ind s0 = Inr (e, s1)"
    and fin: "(e \<noteq> None \<and> s' = s1 \<and> \<not> r) \<or> e = None"
    by (auto simp: advance_def Let_def advance_entry_simps
             split: sum.splits prod.splits option.splits)
  have "e \<noteq> None"
  proof
    assume "e = None"
    with rp have "replan L ind s0 = Inr (None, s1)" by simp
    from replan_accepted [OF this] assms(3) show False by blast
  qed
  with fin have "s' = s1" and nr: "\<not> r" by simp_all
  with replan_frame [OF rp] assms(1,2)
  show "\<not> r" and "output s' = output s" and "state s' = Running"
    by (simp_all add: advance_entry_simps)
next
  assume "3 \<le> length (plannerInput (input s))"
  with assms(2) have len: "\<not> length (plannerInput (input s0)) < 3"
    by (simp add: advance_entry_simps)
  with assms(3) have "\<exists>e s1. replan L ind s0 = Inr (Some e, s1)"
    by (auto simp: replan_def Let_def)
  then obtain e s1 where r: "replan L ind s0 = Inr (Some e, s1)" by blast
  with assms(1,2) have "advance L ind s = Inr (False, [e], s1)"
    by (simp add: advance_def advance_entry_simps)
  then show "\<exists>msgs s'. advance L ind s = Inr (False, msgs, s')" by blast
qed

theorem replan_rejection_preserves_output_witness:
  "state (example_planner Running) = Running
   \<and> 3 \<le> length (plannerInput (input (example_planner Running)))
   \<and> \<not> fst (regenerate (stub_library refuses_ReGenerate 1)
              (snd (set_dcm_initial_state (stub_library refuses_ReGenerate 1)
                 (snd (set_new_reference (stub_library refuses_ReGenerate 1) zero_storage
                    (advance_entry (stub_library refuses_ReGenerate 1) (example_planner Running)))))))
   \<and> (\<exists>msgs s'. advance (stub_library refuses_ReGenerate 1) zero_storage (example_planner Running) =
                    Inr (False, msgs, s')
                \<and> output s' = output (example_planner Running) \<and> state s' = Running)"
proof -
  let ?L = "stub_library refuses_ReGenerate 1"
  let ?s = "example_planner Running"
  have h1: "state ?s = Running" by (simp add: example_defs)
  have h2: "3 \<le> length (plannerInput (input ?s))" by (simp add: example_defs)
  have h4: "\<not> fst (regenerate ?L (snd (set_dcm_initial_state ?L
              (snd (set_new_reference ?L zero_storage (advance_entry ?L ?s))))))"
    by (simp add: regenerate_def invoke_def stub_library_def refuses_ReGenerate_def Let_def)
  from replan_rejection_preserves_output [OF h1 refl disjI2 [OF disjI2 [OF h4]]] h1 h2 h4
  show ?thesis by blast
qed

text \<open>
  Claim C4. An \<^verbatim>\<open>initialize\<close> without a handler returns false, so every one that
  returns true had a handler. For every \<^verbatim>\<open>initialize\<close> that returns true with a
  positive configured CoM height \<open>h\<close> (the parameter \<^verbatim>\<open>comHeight\<close>, 0.70 when it
  is absent), with \<open>\<omega> = sqrt (g / h)\<close> and \<open>g = 9.81\<close>, the matrices of the CoM
  system are \<open>A = -\<omega> I\<close> and \<open>B = \<omega> I = -A\<close>; for \<open>h = 0.70\<close> every entry of
  \<open>A\<close> is within 0.005 of the entry of \<open>-3.74 I\<close>. The height is assumed positive
  because \<open>sqrt (g / h)\<close> is a number only then: for a height of zero or below the
  program stores infinities or NaN, of which nothing is stated.
\<close>

theorem initialize_sets_LIPM_matrices:
  assumes "initialize L l0 (Some h) s = (True, msgs, s')"
    and "comHeight' = (case getParameter_double h ''comHeight'' of Some v \<Rightarrow> v | None \<Rightarrow> 0.70)"
    and "0 < comHeight'"
  shows "fst (initialize L l0 None s) = False
       \<and> StandardAccelerationOfGravitation = 9.81
       \<and> (\<exists>A B. matrices (dynamics (comSystem s')) = Some (A, B)
             \<and> A = mat4_scale (- sqrt (StandardAccelerationOfGravitation / comHeight'))
                     mat4_Identity
             \<and> B = mat4_scale (sqrt (StandardAccelerationOfGravitation / comHeight'))
                     mat4_Identity
             \<and> B = mat4_neg A
             \<and> (comHeight' = 0.70 \<longrightarrow>
                  mat4_within 0.005 A (mat4_scale (- 3.74) mat4_Identity)))"
proof -
  let ?w = "sqrt (StandardAccelerationOfGravitation / comHeight')"
  have none: "fst (initialize L l0 None s) = False"
    by (simp add: initialize_def)
  from assms(1,2) have m: "matrices (dynamics (comSystem s')) =
      Some (mat4_scale (- ?w) mat4_Identity, mat4_scale ?w mat4_Identity)"
    by (simp add: initialize_matrices)
  have neg: "mat4_scale ?w mat4_Identity = mat4_neg (mat4_scale (- ?w) mat4_Identity)"
    by (simp add: mat4_neg_def mat4_scale_def vec4_scale_def mat4_Identity_def)
  have close: "mat4_within 0.005 (mat4_scale (- ?w) mat4_Identity)
                 (mat4_scale (- 3.74) mat4_Identity)"
    if eq: "comHeight' = 0.70"
    using sqrt_gravity_over_height scaled_identity_within by (simp only: eq)
  from none m neg close show ?thesis
    by (simp add: StandardAccelerationOfGravitation_def)
qed

theorem initialize_sets_LIPM_matrices_witness:
  "\<exists>s1 A B.
     initialize (stub_library (\<lambda>c. True) 1) zero_locals (Some example_handler) (make_Impl ()) =
       (True, [], s1)
     \<and> getParameter_double example_handler ''comHeight'' = Some 0.70
     \<and> (0 :: real) < 0.70
     \<and> fst (initialize (stub_library (\<lambda>c. True) 1) zero_locals None (make_Impl ())) = False
     \<and> matrices (dynamics (comSystem s1)) = Some (A, B)
     \<and> A = mat4_scale (- sqrt (9.81 / 0.70)) mat4_Identity
     \<and> B = mat4_scale (sqrt (9.81 / 0.70)) mat4_Identity
     \<and> B = mat4_neg A
     \<and> mat4_within 0.005 A (mat4_scale (- 3.74) mat4_Identity)"
proof -
  from example_initialize obtain s1 where
    h: "initialize (stub_library (\<lambda>c. True) 1) zero_locals (Some example_handler) (make_Impl ()) =
          (True, [], s1)"
    by blast
  have c: "getParameter_double example_handler ''comHeight'' = Some 0.70"
    by (simp add: example_handler_def)
  then have c': "(0.70 :: real) =
      (case getParameter_double example_handler ''comHeight'' of Some v \<Rightarrow> v | None \<Rightarrow> 0.70)"
    by simp
  have pos: "(0 :: real) < 0.70" by simp
  from initialize_sets_LIPM_matrices [OF h c' pos] c h pos show ?thesis
    by (auto simp: StandardAccelerationOfGravitation_def)
qed

text \<open>
  Claim C5, in five parts. (1) After an \<^verbatim>\<open>initialize\<close> that returns true the state
  is \<open>Initialized\<close> and \<^verbatim>\<open>isOutputValid\<close> is false. (2) An \<^verbatim>\<open>advance\<close> in the
  \<open>Initialized\<close> state that returns, returns true, leaves the state \<open>Running\<close> and
  \<^verbatim>\<open>isOutputValid\<close> true, has issued to the generator only the two calls that fetch
  the handles of its DCM and CoM height parts, so none of the re-planning branch, and
  its output holds the contact status, footsteps and DCM trajectory the generator already
  had. (3) It does return when the CoM system has its matrices and the generator reports
  no fewer DCM velocities and CoM heights than DCM positions. (4) An \<^verbatim>\<open>advance\<close> in
  the \<open>Running\<close> state that returns, with true or false, leaves the state
  \<open>Running\<close>, so that every later \<^verbatim>\<open>advance\<close> finds it, and has run the
  re-planning branch: after fetching the handle it has cleared the desired trajectory and
  pushed the new waypoint. (5) \<^verbatim>\<open>isOutputValid\<close> is true exactly in the
  \<open>Running\<close> state.
\<close>

theorem planner_lifecycle:
  "(initialize L l0 handler s0 = (True, msgs0, s1) \<longrightarrow>
      state s1 = Initialized \<and> \<not> isOutputValid s1)
   \<and> (state s = Initialized \<and> advance L ind s = Inr (r, msgs, s') \<longrightarrow>
        r \<and> state s' = Running \<and> isOutputValid s'
        \<and> issued (generator s') =
            issued (generator s) @ [AddDCMTrajectoryGenerator, AddCoMHeightTrajectoryGenerator]
        \<and> pulled_from L (internal (generator (advance_entry L s))) (output s'))
   \<and> (state s = Initialized \<and> matrices (dynamics (comSystem s)) \<noteq> None
        \<and> trajectories_aligned L (internal (generator (advance_entry L s))) \<longrightarrow>
        (\<exists>s'. advance L ind s = Inr (True, [], s')))
   \<and> (state s = Running \<and> advance L ind s = Inr (r, msgs, s') \<longrightarrow>
        state s' = Running
        \<and> (\<exists>rest. issued (generator s') =
              issued (generator s)
                @ [AddDCMTrajectoryGenerator, ClearPersonFollowingDesiredTrajectory,
                   AddPersonFollowingDesiredTrajectoryPoint (endTime s)
                     (desiredPointInAbsoluteFrame ind (parameters s) (input s))]
                @ rest))
   \<and> (isOutputValid s \<longleftrightarrow> state s = Running)"
proof (intro conjI impI)
  assume "initialize L l0 handler s0 = (True, msgs0, s1)"
  from initialize_state [OF this] show "state s1 = Initialized" and "\<not> isOutputValid s1"
    by (simp_all add: isOutputValid_def)
next
  assume a: "state s = Initialized \<and> advance L ind s = Inr (r, msgs, s')"
  then have "state s = Initialized" and "advance L ind s = Inr (r, msgs, s')" by simp_all
  from advance_Initialized [OF this]
  show "r" and "state s' = Running" and "isOutputValid s'"
    and "issued (generator s') =
           issued (generator s) @ [AddDCMTrajectoryGenerator, AddCoMHeightTrajectoryGenerator]"
    and "pulled_from L (internal (generator (advance_entry L s))) (output s')"
    by (simp_all add: isOutputValid_def)
next
  assume "state s = Initialized \<and> matrices (dynamics (comSystem s)) \<noteq> None
        \<and> trajectories_aligned L (internal (generator (advance_entry L s)))"
  then show "\<exists>s'. advance L ind s = Inr (True, [], s')"
    using advance_Initialized_total by blast
next
  assume a: "state s = Running \<and> advance L ind s = Inr (r, msgs, s')"
  then have "state s = Running" and "advance L ind s = Inr (r, msgs, s')" by simp_all
  from advance_Running [OF this]
  show "state s' = Running"
    and "\<exists>rest. issued (generator s') =
              issued (generator s)
                @ [AddDCMTrajectoryGenerator, ClearPersonFollowingDesiredTrajectory,
                   AddPersonFollowingDesiredTrajectoryPoint (endTime s)
                     (desiredPointInAbsoluteFrame ind (parameters s) (input s))]
                @ rest"
    by simp_all
next
  show "isOutputValid s \<longleftrightarrow> state s = Running" by (simp add: isOutputValid_def)
qed

theorem planner_lifecycle_witness:
  "\<exists>s1 s2 s3.
     initialize (stub_library (\<lambda>c. True) 1) zero_locals (Some example_handler) (make_Impl ()) =
       (True, [], s1)
     \<and> state s1 = Initialized \<and> \<not> isOutputValid s1
     \<and> state (snd (snd (setInput (generateDummyUnicycleTrajectoryPlannerInput zero_storage) s1))) =
         Initialized
     \<and> matrices (dynamics (comSystem
          (snd (snd (setInput (generateDummyUnicycleTrajectoryPlannerInput zero_storage) s1))))) \<noteq> None
     \<and> trajectories_aligned (stub_library (\<lambda>c. True) 1)
          (internal (generator (advance_entry (stub_library (\<lambda>c. True) 1)
             (snd (snd (setInput (generateDummyUnicycleTrajectoryPlannerInput zero_storage) s1))))))
     \<and> advance (stub_library (\<lambda>c. True) 1) zero_storage
         (snd (snd (setInput (generateDummyUnicycleTrajectoryPlannerInput zero_storage) s1))) =
       Inr (True, [], s2)
     \<and> state s2 = Running \<and> isOutputValid s2
     \<and> issued (generator s2) =
         issued (generator s1) @ [AddDCMTrajectoryGenerator, AddCoMHeightTrajectoryGenerator]
     \<and> advance (stub_library (\<lambda>c. True) 1) zero_storage s2 = Inr (True, [], s3)
     \<and> state s3 = Running \<and> isOutputValid s3
     \<and> take 3 (drop (length (issued (generator s2))) (issued (generator s3))) =
         [AddDCMTrajectoryGenerator, ClearPersonFollowingDesiredTrajectory,
          AddPersonFollowingDesiredTrajectoryPoint (endTime s2)
            (desiredPointInAbsoluteFrame zero_storage (parameters s2) (input s2))]"
proof -
  let ?L = "stub_library (\<lambda>c. True) 1"
  let ?inp = "generateDummyUnicycleTrajectoryPlannerInput zero_storage"
  from example_lifecycle obtain s1 s2 s3 where
    h1: "initialize ?L zero_locals (Some example_handler) (make_Impl ()) = (True, [], s1)"
    and h2: "advance ?L zero_storage (snd (snd (setInput ?inp s1))) = Inr (True, [], s2)"
    and h3: "advance ?L zero_storage s2 = Inr (True, [], s3)"
    by blast
  let ?sI = "snd (snd (setInput ?inp s1))"
  note first = planner_lifecycle
    [of ?L zero_locals "Some example_handler" "make_Impl ()" "[]" s1 ?sI zero_storage True "[]" s2]
  note second = planner_lifecycle
    [of ?L zero_locals "Some example_handler" "make_Impl ()" "[]" s1 s2 zero_storage True "[]" s3]
  from first h1 have a: "state s1 = Initialized" "\<not> isOutputValid s1" by simp_all
  then have sI: "?sI = s1\<lparr>input := ?inp\<rparr>" by (simp add: setInput_def)
  then have b: "state ?sI = Initialized" using a by simp
  from initialize_matrices [OF h1] sI have m: "matrices (dynamics (comSystem ?sI)) \<noteq> None"
    by simp
  have t: "trajectories_aligned ?L (internal (generator (advance_entry ?L ?sI)))"
    by (simp add: trajectories_aligned_def stub_library_def)
  from first b h2 have c: "state s2 = Running" "isOutputValid s2"
    "issued (generator s2) =
       issued (generator ?sI) @ [AddDCMTrajectoryGenerator, AddCoMHeightTrajectoryGenerator]"
    by simp_all
  from second c(1) h3 obtain rest where d: "state s3 = Running"
    "issued (generator s3) =
       issued (generator s2)
         @ [AddDCMTrajectoryGenerator, ClearPersonFollowingDesiredTrajectory,
            AddPersonFollowingDesiredTrajectoryPoint (endTime s2)
              (desiredPointInAbsoluteFrame zero_storage (parameters s2) (input s2))]
         @ rest"
    by auto
  from d(1) have e: "isOutputValid s3" by (simp add: isOutputValid_def)
  from h1 h2 h3 a b m t c d e sI show ?thesis
    by (intro exI [of _ s1] exI [of _ s2] exI [of _ s3]) simp
qed

text \<open>
  Claim C6. In the \<open>NotInitialized\<close> state, \<^verbatim>\<open>setInput\<close>, \<^verbatim>\<open>advance\<close> and
  \<^verbatim>\<open>setRobotContactFrames\<close> each return false, log their error, and leave the whole
  private state (FSM state, stored input, parameters, output and the rest) as it was.
\<close>

theorem not_initialized_calls_fail:
  assumes "state s = NotInitialized"
  shows "setInput inp s = (False, [Input_planner_never_initialized], s)
       \<and> advance L ind s = Inr (False, [Advance_planner_never_initialized], s)
       \<and> setRobotContactFrames model s = (False, [Frames_planner_not_initialized], s)"
  using assms by (simp add: setInput_def advance_def setRobotContactFrames_def)

theorem not_initialized_calls_fail_witness:
  "state (make_Impl ()) = NotInitialized
   \<and> setInput (generateDummyUnicycleTrajectoryPlannerInput zero_storage) (make_Impl ()) =
       (False, [Input_planner_never_initialized], make_Impl ())
   \<and> advance (stub_library (\<lambda>c. True) 1) zero_storage (make_Impl ()) =
       Inr (False, [Advance_planner_never_initialized], make_Impl ())
   \<and> setRobotContactFrames (example_model [''l_sole'', ''r_sole'']) (make_Impl ()) =
       (False, [Frames_planner_not_initialized], make_Impl ())"
proof -
  have h: "state (make_Impl ()) = NotInitialized" by (simp add: make_Impl_def)
  from not_initialized_calls_fail [OF h] h show ?thesis by simp
qed

text \<open>
  Claim C7. For a planner that is not in the \<open>NotInitialized\<close> state, when the model
  gives the invalid frame index for the configured left or right contact frame name,
  \<^verbatim>\<open>setRobotContactFrames\<close> returns false and leaves the planner in the
  \<open>NotInitialized\<close> state, and an \<^verbatim>\<open>advance\<close> after it returns false as well, for
  any generator library, without changing the planner.
\<close>

theorem unresolved_contact_frame_resets:
  assumes "state s \<noteq> NotInitialized"
    and "getFrameIndex model (leftContactFrameName (parameters s)) = FRAME_INVALID_INDEX
       \<or> getFrameIndex model (rightContactFrameName (parameters s)) = FRAME_INVALID_INDEX"
  shows "fst (setRobotContactFrames model s) = False
       \<and> state (snd (snd (setRobotContactFrames model s))) = NotInitialized
       \<and> (\<exists>msgs. advance L ind (snd (snd (setRobotContactFrames model s))) =
                   Inr (False, msgs, snd (snd (setRobotContactFrames model s))))"
proof -
  let ?r = "setRobotContactFrames model s"
  from assms have "fst ?r = False \<and> state (snd (snd ?r)) = NotInitialized"
    by (auto simp: setRobotContactFrames_def Let_def)
  then show ?thesis by (simp add: advance_def)
qed

theorem unresolved_contact_frame_resets_witness:
  "state (example_planner Initialized) \<noteq> NotInitialized
   \<and> getFrameIndex (example_model [''root_link'', ''r_sole''])
        (leftContactFrameName (parameters (example_planner Initialized))) = FRAME_INVALID_INDEX
   \<and> fst (setRobotContactFrames (example_model [''root_link'', ''r_sole''])
            (example_planner Initialized)) = False
   \<and> state (snd (snd (setRobotContactFrames (example_model [''root_link'', ''r_sole''])
                       (example_planner Initialized)))) = NotInitialized
   \<and> (\<exists>msgs. advance (stub_library (\<lambda>c. True) 1) zero_storage
                 (snd (snd (setRobotContactFrames (example_model [''root_link'', ''r_sole''])
                              (example_planner Initialized)))) =
               Inr (False, msgs,
                    snd (snd (setRobotContactFrames (example_model [''root_link'', ''r_sole''])
                                (example_planner Initialized)))))"
proof -
  have h1: "state (example_planner Initialized) \<noteq> NotInitialized"
    by (simp add: example_defs)
  have h2: "getFrameIndex (example_model [''root_link'', ''r_sole''])
              (leftContactFrameName (parameters (example_planner Initialized))) = FRAME_INVALID_INDEX"
    by (simp add: example_defs example_model_def)
  from unresolved_contact_frame_resets [OF h1 disjI1 [OF h2]] h1 h2 show ?thesis by blast
qed

text \<open>
  Claim C8. After an \<^verbatim>\<open>advance\<close> that returns true, from any state and hence also
  after any number of earlier calls, the CoM position, velocity and acceleration
  sequences of the output each have exactly as many samples as its DCM position sequence,
  which is the one pulled from the generator.
\<close>

theorem advance_aligns_com_with_dcm:
  assumes "advance L ind s = Inr (True, msgs, s')"
  shows "(\<exists>g. pulled_from L g (output s'))
       \<and> length (com_position (comTrajectory (output s'))) =
           length (dcm_position (dcmTrajectory (output s')))
       \<and> length (com_velocity (comTrajectory (output s'))) =
           length (dcm_position (dcmTrajectory (output s')))
       \<and> length (com_acceleration (comTrajectory (output s'))) =
           length (dcm_position (dcmTrajectory (output s')))"
proof -
  from assms obtain s1 where p: "publish L ind s1 = Inr s'"
    by (auto simp: advance_def Let_def split: if_splits sum.splits prod.splits option.splits)
  from publish_sample_counts [OF p] publish_pulled [OF p] show ?thesis
    by (auto simp: sample_counts_def)
qed

theorem advance_aligns_com_with_dcm_witness:
  "\<exists>msgs s'. advance (stub_library (\<lambda>c. True) 2) zero_storage (example_planner Running) =
               Inr (True, msgs, s')
     \<and> pulled_from (stub_library (\<lambda>c. True) 2) () (output s')
     \<and> length (dcm_position (dcmTrajectory (output s'))) = 2
     \<and> length (com_position (comTrajectory (output s'))) = 2
     \<and> length (com_velocity (comTrajectory (output s'))) = 2
     \<and> length (com_acceleration (comTrajectory (output s'))) = 2"
proof -
  from example_running_advance obtain s' where
    h: "advance (stub_library (\<lambda>c. True) 2) zero_storage (example_planner Running) = Inr (True, [], s')"
    and n: "length (dcm_position (dcmTrajectory (output s'))) = 2"
    by blast
  from advance_aligns_com_with_dcm [OF h] h n show ?thesis
    by auto
qed

text \<open>
  Claim C9. When the output is not valid (the state is not \<open>Running\<close>), or when
  building the left or the right contact list fails, \<^verbatim>\<open>getContactPhaseList\<close>
  returns the empty (default-constructed) contact phase list, logs one error, and leaves
  the planner's state as it was; its result is a value in every case.
\<close>

theorem getContactPhaseList_invalid_or_failed:
  fixes getContactList :: "'cl getContactList"
  assumes "\<not> isOutputValid s
     \<or> \<not> fst (getContactList (impl_initTime s) (dt (parameters s))
                (leftFootInContact (contactStatus (output s))) (leftSteps (steps (output s)))
                (leftContactFrameIndex (parameters s)) ''left_foot'')
     \<or> \<not> fst (getContactList (impl_initTime s) (dt (parameters s))
                (rightFootInContact (contactStatus (output s))) (rightSteps (steps (output s)))
                (rightContactFrameIndex (parameters s)) ''right_foot'')"
  shows "(\<exists>e. getContactPhaseList getContactList s = ((make_ContactPhaseList, [e]), s))
       \<and> lists (fst (fst (getContactPhaseList getContactList s))) = Map.empty"
  using assms by (auto simp: getContactPhaseList_def make_ContactPhaseList_def Let_def)

theorem getContactPhaseList_invalid_or_failed_witness:
  "\<not> isOutputValid (example_planner Initialized)
   \<and> (\<exists>e. getContactPhaseList (stub_getContactList (\<lambda>name. True)) (example_planner Initialized) =
            ((make_ContactPhaseList, [e]), example_planner Initialized))
   \<and> \<not> fst (stub_getContactList (\<lambda>name. name \<noteq> ''right_foot'')
              (impl_initTime (example_planner Running)) (dt (parameters (example_planner Running)))
              (rightFootInContact (contactStatus (output (example_planner Running))))
              (rightSteps (steps (output (example_planner Running))))
              (rightContactFrameIndex (parameters (example_planner Running))) ''right_foot'')
   \<and> (\<exists>e. getContactPhaseList (stub_getContactList (\<lambda>name. name \<noteq> ''right_foot''))
             (example_planner Running) =
            ((make_ContactPhaseList, [e]), example_planner Running))"
proof -
  have h1: "\<not> isOutputValid (example_planner Initialized)"
    by (simp add: isOutputValid_def example_defs)
  let ?s = "example_planner Running"
  let ?gcl = "stub_getContactList (\<lambda>name. name \<noteq> ''right_foot'')"
  have h2: "\<not> fst (?gcl (impl_initTime ?s) (dt (parameters ?s))
              (rightFootInContact (contactStatus (output ?s))) (rightSteps (steps (output ?s)))
              (rightContactFrameIndex (parameters ?s)) ''right_foot'')"
    by (simp add: stub_getContactList_def)
  from getContactPhaseList_invalid_or_failed
         [of "example_planner Initialized" "stub_getContactList (\<lambda>name. True)", OF disjI1 [OF h1]]
       getContactPhaseList_invalid_or_failed [of ?s ?gcl, OF disjI2 [OF disjI2 [OF h2]]] h1 h2
  show ?thesis by blast
qed

text \<open>
  Claim C10. Every \<^verbatim>\<open>advance\<close> on an initialized planner that returns at all,
  with true or with false, leaves the stored trajectory init time equal to the init time
  of the current input. When it returns false the output and the \<open>Running\<close> state
  are kept, and a later \<^verbatim>\<open>getContactPhaseList\<close> gives what it gives on the old
  planner state with the init time replaced by that of the input of the failed call.
\<close>

theorem failed_advance_moves_init_time:
  fixes getContactList :: "'cl getContactList"
  assumes "state s \<noteq> NotInitialized"
    and "advance L ind s = Inr (r, msgs, s')"
  shows "impl_initTime s' = initTime (input s)
       \<and> (\<not> r \<longrightarrow> output s' = output s \<and> state s' = Running
            \<and> fst (getContactPhaseList getContactList s') =
                fst (getContactPhaseList getContactList (s\<lparr>impl_initTime := initTime (input s)\<rparr>)))"
proof -
  let ?s0 = "advance_entry L s"
  show ?thesis
  proof (cases r)
    case True
    with assms obtain s1 where p: "publish L ind s1 = Inr s'"
      and s1: "s1 = ?s0 \<or> (\<exists>e. replan L ind ?s0 = Inr (e, s1))"
      by (auto simp: advance_def Let_def split: if_splits sum.splits prod.splits option.splits)
    from s1 have "impl_initTime s1 = initTime (input s)"
      by (auto dest: replan_frame simp: advance_entry_simps)
    with publish_frame [OF p] True show ?thesis by simp
  next
    case False
    with assms obtain e where run: "state s = Running" and rp: "replan L ind ?s0 = Inr (Some e, s')"
      by (auto simp: advance_def Let_def advance_entry_simps
               split: if_splits sum.splits prod.splits option.splits)
    from replan_frame [OF rp] run False show ?thesis
      by (simp add: getContactPhaseList_def isOutputValid_def Let_def advance_entry_simps)
  qed
qed

theorem failed_advance_moves_init_time_witness:
  "state (example_planner Running) \<noteq> NotInitialized
   \<and> impl_initTime (example_planner Running) = 0
   \<and> initTime (input (example_planner Running)) = 5
   \<and> lists (fst (fst (getContactPhaseList (stub_getContactList (\<lambda>name. True))
                         (example_planner Running)))) ''left_foot'' = Some (0, 0)
   \<and> (\<exists>msgs s'. advance (stub_library refuses_ReGenerate 1) zero_storage (example_planner Running) =
                    Inr (False, msgs, s')
        \<and> impl_initTime s' = 5
        \<and> output s' = output (example_planner Running)
        \<and> state s' = Running
        \<and> fst (getContactPhaseList (stub_getContactList (\<lambda>name. True)) s') =
            fst (getContactPhaseList (stub_getContactList (\<lambda>name. True))
                   ((example_planner Running)\<lparr>impl_initTime := 5\<rparr>))
        \<and> lists (fst (fst (getContactPhaseList (stub_getContactList (\<lambda>name. True)) s')))
             ''left_foot'' = Some (5, 0))"
proof -
  let ?L = "stub_library refuses_ReGenerate 1"
  let ?s = "example_planner Running"
  let ?gcl = "stub_getContactList (\<lambda>name. True)"
  have h1: "state ?s \<noteq> NotInitialized" by (simp add: example_defs)
  have h2: "impl_initTime ?s = 0" "initTime (input ?s) = 5" by (simp_all add: example_defs)
  have old: "lists (fst (fst (getContactPhaseList ?gcl ?s))) ''left_foot'' = Some (0, 0)"
    by (simp add: getContactPhaseList_def isOutputValid_def stub_getContactList_def setLists_def
          make_ContactPhaseList_def example_defs Let_def)
  have new: "lists (fst (fst (getContactPhaseList ?gcl (?s\<lparr>impl_initTime := 5\<rparr>)))) ''left_foot'' =
               Some (5, 0)"
    by (simp add: getContactPhaseList_def isOutputValid_def stub_getContactList_def setLists_def
          make_ContactPhaseList_def example_defs Let_def)
  have "\<exists>s'. advance ?L zero_storage ?s = Inr (False, [Failed_in_computing_new_trajectory], s')"
    by (simp add: example_defs advance_defs)
  then obtain s' where h3: "advance ?L zero_storage ?s = Inr (False, [Failed_in_computing_new_trajectory], s')"
    by blast
  from failed_advance_moves_init_time [OF h1 h3, of ?gcl] h1 h2 h3 old new
  show ?thesis by auto
qed


end
